theory Spec2Isabelle
  imports Complex_Main
begin

section \<open>Floating-point values\<close>

text \<open>
  The program computes with IEEE doubles held in numpy arrays. A double is modelled as a
  finite real or one of the three special values; rounding, overflow of finite results
  and the sign of zero are not modelled. The special values are kept because the code
  branches on them (\<^verbatim>\<open>np.isfinite\<close>, \<^verbatim>\<open>np.isnan\<close>, comparisons that are false on
  not-a-number).
\<close>

datatype fl = Fin real | PInf | NInf | NaN

fun np_isnan :: "fl \<Rightarrow> bool" where
  "np_isnan NaN = True"
| "np_isnan _ = False"

fun np_isfinite :: "fl \<Rightarrow> bool" where
  "np_isfinite (Fin _) = True"
| "np_isfinite _ = False"

fun fl_neg :: "fl \<Rightarrow> fl" where
  "fl_neg (Fin a) = Fin (- a)"
| "fl_neg PInf = NInf"
| "fl_neg NInf = PInf"
| "fl_neg NaN = NaN"

fun fl_abs :: "fl \<Rightarrow> fl" where
  "fl_abs (Fin a) = Fin \<bar>a\<bar>"
| "fl_abs PInf = PInf"
| "fl_abs NInf = PInf"
| "fl_abs NaN = NaN"

fun fl_add :: "fl \<Rightarrow> fl \<Rightarrow> fl" where
  "fl_add NaN _ = NaN"
| "fl_add _ NaN = NaN"
| "fl_add (Fin a) (Fin b) = Fin (a + b)"
| "fl_add PInf NInf = NaN"
| "fl_add NInf PInf = NaN"
| "fl_add PInf _ = PInf"
| "fl_add _ PInf = PInf"
| "fl_add NInf _ = NInf"
| "fl_add _ NInf = NInf"

definition fl_sub :: "fl \<Rightarrow> fl \<Rightarrow> fl" where
  "fl_sub a b = fl_add a (fl_neg b)"

fun fl_mul :: "fl \<Rightarrow> fl \<Rightarrow> fl" where
  "fl_mul NaN _ = NaN"
| "fl_mul _ NaN = NaN"
| "fl_mul (Fin a) (Fin b) = Fin (a * b)"
| "fl_mul (Fin a) PInf = (if a = 0 then NaN else if 0 < a then PInf else NInf)"
| "fl_mul (Fin a) NInf = (if a = 0 then NaN else if 0 < a then NInf else PInf)"
| "fl_mul PInf (Fin b) = (if b = 0 then NaN else if 0 < b then PInf else NInf)"
| "fl_mul NInf (Fin b) = (if b = 0 then NaN else if 0 < b then NInf else PInf)"
| "fl_mul PInf PInf = PInf"
| "fl_mul PInf NInf = NInf"
| "fl_mul NInf PInf = NInf"
| "fl_mul NInf NInf = PInf"

text \<open>Division of numpy doubles: a zero divisor gives an infinity or not-a-number.\<close>

fun fl_div :: "fl \<Rightarrow> fl \<Rightarrow> fl" where
  "fl_div NaN _ = NaN"
| "fl_div _ NaN = NaN"
| "fl_div (Fin a) (Fin b) =
     (if b = 0 then (if a = 0 then NaN else if 0 < a then PInf else NInf) else Fin (a / b))"
| "fl_div (Fin a) PInf = Fin 0"
| "fl_div (Fin a) NInf = Fin 0"
| "fl_div PInf (Fin b) = (if 0 \<le> b then PInf else NInf)"
| "fl_div NInf (Fin b) = (if 0 \<le> b then NInf else PInf)"
| "fl_div PInf PInf = NaN"
| "fl_div PInf NInf = NaN"
| "fl_div NInf PInf = NaN"
| "fl_div NInf NInf = NaN"

text \<open>Comparisons: every comparison with not-a-number is false.\<close>

fun fl_lt :: "fl \<Rightarrow> fl \<Rightarrow> bool" where
  "fl_lt NaN _ = False"
| "fl_lt _ NaN = False"
| "fl_lt (Fin a) (Fin b) = (a < b)"
| "fl_lt _ NInf = False"
| "fl_lt NInf _ = True"
| "fl_lt PInf _ = False"
| "fl_lt _ PInf = True"

fun fl_le :: "fl \<Rightarrow> fl \<Rightarrow> bool" where
  "fl_le NaN _ = False"
| "fl_le _ NaN = False"
| "fl_le (Fin a) (Fin b) = (a \<le> b)"
| "fl_le NInf _ = True"
| "fl_le _ PInf = True"
| "fl_le _ NInf = False"
| "fl_le PInf _ = False"

definition fl_gt :: "fl \<Rightarrow> fl \<Rightarrow> bool" where
  "fl_gt a b = fl_lt b a"

definition fl_ge :: "fl \<Rightarrow> fl \<Rightarrow> bool" where
  "fl_ge a b = fl_le b a"

fun fl_eq :: "fl \<Rightarrow> fl \<Rightarrow> bool" where
  "fl_eq NaN _ = False"
| "fl_eq _ NaN = False"
| "fl_eq a b = (a = b)"

text \<open>\<^verbatim>\<open>np.sum\<close> of a row, \<^verbatim>\<open>np.cos\<close>, \<^verbatim>\<open>np.log\<close>, \<^verbatim>\<open>np.degrees\<close> and the float remainder.\<close>

definition np_sum :: "fl list \<Rightarrow> fl" where
  "np_sum xs = foldl fl_add (Fin 0) xs"

fun np_cos :: "fl \<Rightarrow> fl" where
  "np_cos (Fin a) = Fin (cos a)"
| "np_cos _ = NaN"

fun np_log :: "fl \<Rightarrow> fl" where
  "np_log (Fin a) = (if 0 < a then Fin (ln a) else if a = 0 then NInf else NaN)"
| "np_log PInf = PInf"
| "np_log _ = NaN"

definition np_degrees :: "fl \<Rightarrow> fl" where
  "np_degrees a = fl_mul a (Fin (180 / pi))"

fun fl_mod :: "fl \<Rightarrow> fl \<Rightarrow> fl" where
  "fl_mod (Fin a) (Fin b) = (if b = 0 then NaN else Fin (a - b * of_int \<lfloor>a / b\<rfloor>))"
| "fl_mod (Fin a) PInf = (if 0 \<le> a then Fin a else PInf)"
| "fl_mod (Fin a) NInf = (if a \<le> 0 then Fin a else NInf)"
| "fl_mod _ _ = NaN"

section \<open>Errors and array indexing\<close>

text \<open>
  Every exception the modelled code can raise is a value. The constructors name the
  raise site: the four \<^verbatim>\<open>ValueError\<close>s of the module carry their own message in the
  source and are kept apart here.
\<close>

datatype error =
    NoFiniteSpectra      \<comment> \<open>ValueError("No finite spectra. Check for NaNs.")\<close>
  | WrongSize            \<comment> \<open>ValueError("Wrong size in 'vpnts' and 'spnts'.")\<close>
  | BadMethod            \<comment> \<open>ValueError("method is not 'max', 'gaussian' or 'quadratic'.")\<close>
  | IncorrectLengthP0    \<comment> \<open>ValueError('Incorrect length of p0.')\<close>
  | NaNsInP0             \<comment> \<open>ValueError("WARNING: NaNs in the p0 array.")\<close>
  | MismatchShapes       \<comment> \<open>ValueError("Mismatch in array shapes.")\<close>
  | IndexError           \<comment> \<open>an index out of bounds, or a boolean mask of the wrong length\<close>
  | UnpackError          \<comment> \<open>ValueError of a tuple assignment from a sequence of the wrong length\<close>
  | BroadcastError       \<comment> \<open>ValueError of an array assignment whose shapes do not agree\<close>
  | EmptySequence        \<comment> \<open>ValueError of argmax or max on an empty array\<close>
  | IntConversion        \<comment> \<open>ValueError or OverflowError of int() on a non-finite float\<close>
  | TypeError            \<comment> \<open>TypeError of formatting an array of several elements with %.2f\<close>
  | InhomogeneousShape   \<comment> \<open>ValueError of building an array from blocks of different shapes\<close>
  | External string      \<comment> \<open>an exception raised inside a library the module calls\<close>

definition bind_err :: "error + 'a \<Rightarrow> ('a \<Rightarrow> error + 'b) \<Rightarrow> error + 'b" where
  "bind_err m f = (case m of Inl e \<Rightarrow> Inl e | Inr a \<Rightarrow> f a)"

fun map_err :: "('a \<Rightarrow> error + 'b) \<Rightarrow> 'a list \<Rightarrow> error + 'b list" where
  "map_err f [] = Inr []"
| "map_err f (a # as) =
     (case f a of Inl e \<Rightarrow> Inl e
      | Inr b \<Rightarrow> (case map_err f as of Inl e \<Rightarrow> Inl e | Inr bs \<Rightarrow> Inr (b # bs)))"

text \<open>\<^verbatim>\<open>a[i]\<close> for a non-negative index, \<^verbatim>\<open>a[idxs]\<close> for an integer index array and
  \<^verbatim>\<open>a[mask]\<close> for a boolean mask (numpy refuses a mask of another length).\<close>

definition nth_err :: "'a list \<Rightarrow> nat \<Rightarrow> error + 'a" where
  "nth_err xs i = (if i < length xs then Inr (xs ! i) else Inl IndexError)"

definition take_idx :: "'a list \<Rightarrow> nat list \<Rightarrow> error + 'a list" where
  "take_idx xs idxs =
     (if list_all (\<lambda>i. i < length xs) idxs then Inr (map ((!) xs) idxs) else Inl IndexError)"

definition take_mask :: "'a list \<Rightarrow> bool list \<Rightarrow> error + 'a list" where
  "take_mask xs m =
     (if length m = length xs then Inr (map fst (filter snd (zip xs m))) else Inl IndexError)"

section \<open>Library functions the module calls\<close>

text \<open>
  numpy, scipy, celerite, bettermoments and emcee are not part of the module. Each call
  into them is a field of the record below, so that a theorem holds for every behaviour
  of the library unless it states an assumption on the field. What the documentation of
  a library function promises is stated as a predicate on the call where a theorem needs
  it.
\<close>

record optres =
  res_success :: bool
  res_x :: "fl list"

record ('gp, 'chain) ext =
  np_argsort :: "fl list \<Rightarrow> nat list"
  np_percentile :: "fl list \<Rightarrow> real \<Rightarrow> fl"
  np_median :: "fl list \<Rightarrow> fl"
  binned_statistic :: "fl list \<Rightarrow> fl list \<Rightarrow> int \<Rightarrow> fl \<times> fl \<Rightarrow> error + (fl list \<times> fl list)"
  curve_fit :: "fl list \<Rightarrow> fl list \<Rightarrow> fl \<times> fl \<times> fl \<Rightarrow> (fl \<times> fl \<times> fl) option"
  curve_fit_sho :: "bool \<Rightarrow> fl list \<Rightarrow> fl list \<Rightarrow> fl list \<Rightarrow> fl list option"
  quadratic :: "fl list \<Rightarrow> fl \<Rightarrow> fl \<Rightarrow> error + fl"
  minimize :: "(fl list \<Rightarrow> error + fl) \<Rightarrow> fl list \<Rightarrow> (fl \<times> fl option) list \<Rightarrow> error + optres"
  gp_compute :: "fl \<Rightarrow> fl \<Rightarrow> fl \<Rightarrow> fl \<Rightarrow> fl list \<Rightarrow> 'gp option"
  gp_log_likelihood :: "'gp \<Rightarrow> fl list \<Rightarrow> fl"
  run_mcmc :: "(fl list \<Rightarrow> error + fl) \<Rightarrow> fl list list \<Rightarrow> nat \<Rightarrow> error + 'chain"
  chain_of :: "'chain \<Rightarrow> fl list list list"

section \<open>The ensemble and its constructor\<close>

record ensemble =
  self_theta :: "fl list"
  self_spectra :: "fl list list"
  self_theta_deg :: "fl list"
  self_spectra_flat :: "fl list"
  self_velax :: "fl list"
  self_channel :: fl
  self_velax_range :: "fl \<times> fl"
  self_velax_mask :: "fl \<times> fl"

text \<open>
  \<^verbatim>\<open>ensemble.__init__\<close>. The sort permutes \<^verbatim>\<open>self.spectra\<close> and \<^verbatim>\<open>self.theta\<close>; the mask
  of non-empty rows, the degrees and the flattened intensities are computed from the
  arguments \<^verbatim>\<open>spectra\<close> and \<^verbatim>\<open>theta\<close>, as the source writes them, not from the sorted and
  filtered fields.
\<close>

definition ensemble_init ::
  "('gp, 'chain) ext \<Rightarrow> fl list list \<Rightarrow> fl list \<Rightarrow> fl list \<Rightarrow> bool \<Rightarrow> bool \<Rightarrow> error + ensemble"
where
  "ensemble_init E spectra theta velax remove_empty sort_spectra =
     bind_err
       (if sort_spectra then
          (let idxs = np_argsort E theta in
           bind_err (take_idx spectra idxs) (\<lambda>sp.
           bind_err (take_idx theta idxs) (\<lambda>th. Inr (th, sp))))
        else Inr (theta, spectra))
     (\<lambda>(th1, sp1).
     bind_err
       (if remove_empty then
          (let idxs = map (\<lambda>row. fl_gt (np_sum row) (Fin 0)) spectra in
           bind_err (take_mask th1 idxs) (\<lambda>th.
           bind_err (take_mask sp1 idxs) (\<lambda>sp. Inr (th, sp))))
        else Inr (th1, sp1))
     (\<lambda>(th2, sp2).
     if length th2 < 1 then Inl NoFiniteSpectra
     else
       bind_err (nth_err velax 1) (\<lambda>v1.
       bind_err (nth_err velax 0) (\<lambda>v0.
         let ch = fl_sub v1 v0 in
         Inr \<lparr> self_theta = th2,
               self_spectra = sp2,
               self_theta_deg = map (\<lambda>t. fl_mod (np_degrees t) (Fin 360)) theta,
               self_spectra_flat = concat spectra,
               self_velax = velax,
               self_channel = ch,
               self_velax_range =
                 (fl_sub v0 (fl_mul (Fin 0.5) ch), fl_add (last velax) (fl_mul (Fin 0.5) ch)),
               self_velax_mask = (np_percentile E velax 30, np_percentile E velax 70)
             \<rparr>))))"

text \<open>
  The order numpy sorts doubles in: ascending, not-a-number last. On values that are not
  not-a-number it is the comparison \<open>\<le>\<close>.
\<close>

fun sort_le :: "fl \<Rightarrow> fl \<Rightarrow> bool" where
  "sort_le _ NaN = True"
| "sort_le NaN _ = False"
| "sort_le a b = fl_le a b"

text \<open>
  What \<^verbatim>\<open>np.argsort(a)\<close> promises for the default kind: the indices \<open>0..<length a\<close>, each
  once, in an order that sorts \<open>a\<close>. The default kind is not a stable sort, so nothing is
  promised on the order of equal keys.
\<close>

definition argsort_sorts :: "(fl list \<Rightarrow> nat list) \<Rightarrow> fl list \<Rightarrow> bool" where
  "argsort_sorts f a =
     (sort (f a) = [0..<length a] \<and> sorted_wrt sort_le (map ((!) a) (f a)))"

section \<open>Deprojection\<close>

text \<open>
  Arguments that Python tests for truth and converts with \<^verbatim>\<open>int()\<close>: \<^verbatim>\<open>resample\<close> and
  \<^verbatim>\<open>optimize\<close> are a bool or a number. A float not-a-number is true.
\<close>

datatype pyarg = PyBool bool | PyNum fl

fun py_truthy :: "pyarg \<Rightarrow> bool" where
  "py_truthy (PyBool b) = b"
| "py_truthy (PyNum a) = (if fl_eq a (Fin 0) then False else True)"

fun py_float :: "pyarg \<Rightarrow> fl" where
  "py_float (PyBool b) = (if b then Fin 1 else Fin 0)"
| "py_float (PyNum a) = a"

text \<open>\<^verbatim>\<open>int(x)\<close> truncates towards zero and raises on a non-finite float.\<close>

fun py_int :: "fl \<Rightarrow> error + int" where
  "py_int (Fin a) = Inr (if 0 \<le> a then \<lfloor>a\<rfloor> else \<lceil>a\<rceil>)"
| "py_int _ = Inl IntConversion"

text \<open>\<^verbatim>\<open>_order_spectra\<close>: the intensities default to the cached \<^verbatim>\<open>self.spectra_flat\<close>.\<close>

definition order_spectra ::
  "('gp, 'chain) ext \<Rightarrow> ensemble \<Rightarrow> fl list \<Rightarrow> fl list option \<Rightarrow> error + (fl list \<times> fl list)"
where
  "order_spectra E e vpnts spnts_arg =
     (let spnts = (case spnts_arg of None \<Rightarrow> self_spectra_flat e | Some sp \<Rightarrow> sp) in
      if length spnts = length vpnts then
        (let idxs = np_argsort E vpnts in
         bind_err (take_idx vpnts idxs) (\<lambda>v.
         bind_err (take_idx spnts idxs) (\<lambda>sp. Inr (v, sp))))
      else Inl WrongSize)"

text \<open>\<^verbatim>\<open>_resample_spectra\<close>: the number of bins is \<^verbatim>\<open>int((self.velax.size - 1) * resample)\<close>;
  the returned axis is the average of the upper and the lower bin edges.\<close>

definition resample_spectra ::
  "('gp, 'chain) ext \<Rightarrow> ensemble \<Rightarrow> fl list \<Rightarrow> fl list \<Rightarrow> pyarg \<Rightarrow> error + (fl list \<times> fl list)"
where
  "resample_spectra E e vpnts spnts resample =
     (if py_truthy resample then
        bind_err
          (py_int (fl_mul (Fin (of_int (int (length (self_velax e)) - 1))) (py_float resample)))
          (\<lambda>bins.
        bind_err (binned_statistic E vpnts spnts bins (self_velax_range e)) (\<lambda>(y, x_edges).
          Inr (map (\<lambda>(a, b). fl_div (fl_add a b) (Fin 2)) (zip (tl x_edges) (butlast x_edges)),
               y)))
      else Inr (vpnts, spnts))"

text \<open>\<^verbatim>\<open>deprojected_spectrum\<close>: one row of shifted coordinates per stored angle.\<close>

definition deprojected_spectrum ::
  "('gp, 'chain) ext \<Rightarrow> ensemble \<Rightarrow> fl \<Rightarrow> pyarg \<Rightarrow> error + (fl list \<times> fl list)"
where
  "deprojected_spectrum E e vrot resample =
     (let vpnts = map (\<lambda>t. map (\<lambda>v. fl_sub v (fl_mul vrot (np_cos t))) (self_velax e))
                      (self_theta e) in
      bind_err (order_spectra E e (concat vpnts) None) (\<lambda>(vp, sp).
        resample_spectra E e vp sp resample))"

section \<open>Line centres\<close>

text \<open>\<^verbatim>\<open>np.argmax\<close> and \<^verbatim>\<open>np.max\<close>: the first maximum; the first not-a-number wins over
  every number; an empty array raises.\<close>

fun argmax_from :: "fl list \<Rightarrow> nat \<Rightarrow> nat \<Rightarrow> fl \<Rightarrow> nat" where
  "argmax_from [] i bi bv = bi"
| "argmax_from (y # ys) i bi bv =
     (if np_isnan bv then bi
      else if np_isnan y \<or> fl_gt y bv then argmax_from ys (Suc i) i y
      else argmax_from ys (Suc i) bi bv)"

definition np_argmax :: "fl list \<Rightarrow> error + nat" where
  "np_argmax ys = (case ys of [] \<Rightarrow> Inl EmptySequence | y # rest \<Rightarrow> Inr (argmax_from rest 1 0 y))"

definition np_max :: "fl list \<Rightarrow> error + fl" where
  "np_max xs = bind_err (np_argmax xs) (\<lambda>i. Inr (xs ! i))"

fun np_trapz :: "fl list \<Rightarrow> fl list \<Rightarrow> fl" where
  "np_trapz (y0 # y1 # ys) (x0 # x1 # xs) =
     fl_add (fl_div (fl_mul (fl_sub x1 x0) (fl_add y1 y0)) (Fin 2))
            (np_trapz (y1 # ys) (x1 # xs))"
| "np_trapz _ _ = Fin 0"

text \<open>\<^verbatim>\<open>_get_p0_gaussian\<close>: the amplitude guess is the maximum of \<open>x\<close>, as the source has it.\<close>

definition get_p0_gaussian :: "fl list \<Rightarrow> fl list \<Rightarrow> error + (fl \<times> fl \<times> fl)" where
  "get_p0_gaussian x y =
     (if length x = length y then
        bind_err (np_max x) (\<lambda>Tb.
        bind_err (np_argmax y) (\<lambda>i.
        bind_err (nth_err x i) (\<lambda>x0.
          Inr (x0, fl_div (fl_div (np_trapz y x) Tb) (Fin (sqrt (2 * pi))), Tb))))
      else Inl MismatchShapes)"

text \<open>\<^verbatim>\<open>_fit_gaussian\<close> with the default arguments: every exception raised inside the
  \<^verbatim>\<open>try\<close> block, by the initial guess or by the fit, gives three not-a-numbers.\<close>

definition fit_gaussian :: "('gp, 'chain) ext \<Rightarrow> fl list \<Rightarrow> fl list \<Rightarrow> fl \<times> fl \<times> fl" where
  "fit_gaussian E x y =
     (case get_p0_gaussian x y of
        Inl _ \<Rightarrow> (NaN, NaN, NaN)
      | Inr p0 \<Rightarrow> (case curve_fit E x y p0 of None \<Rightarrow> (NaN, NaN, NaN) | Some popt \<Rightarrow> popt))"

definition get_gaussian_width :: "('gp, 'chain) ext \<Rightarrow> fl list \<Rightarrow> fl list \<Rightarrow> fl" where
  "get_gaussian_width E x y =
     (case fit_gaussian E x y of (x0, dV, Tb) \<Rightarrow>
        if np_isfinite dV then fl_abs dV else Fin (10 ^ 50))"

definition get_gaussian_center :: "('gp, 'chain) ext \<Rightarrow> fl list \<Rightarrow> fl list \<Rightarrow> error + fl" where
  "get_gaussian_center E x y =
     (case fit_gaussian E x y of (x0, dV, Tb) \<Rightarrow>
        if np_isfinite x0 then Inr (fl_abs x0)
        else bind_err (np_argmax y) (\<lambda>i. nth_err x i))"

text \<open>\<^verbatim>\<open>str.lower\<close> on the ASCII letters, which is all the method names need.\<close>

definition lower_chr :: "char \<Rightarrow> char" where
  "lower_chr c =
     (case map_of (zip ''ABCDEFGHIJKLMNOPQRSTUVWXYZ'' ''abcdefghijklmnopqrstuvwxyz'') c of
        Some d \<Rightarrow> d
      | None \<Rightarrow> c)"

definition str_lower :: "string \<Rightarrow> string" where
  "str_lower s = map lower_chr s"

definition peak_velocities :: "('gp, 'chain) ext \<Rightarrow> ensemble \<Rightarrow> string \<Rightarrow> error + fl list" where
  "peak_velocities E e method_arg =
     (let method = str_lower method_arg in
      if method = ''max'' then
        bind_err (map_err np_argmax (self_spectra e)) (\<lambda>idxs. take_idx (self_velax e) idxs)
      else if method = ''quadratic'' then
        map_err (\<lambda>spectrum.
                   bind_err (nth_err (self_velax e) 0) (\<lambda>v0.
                     quadratic E spectrum v0 (self_channel e)))
                (self_spectra e)
      else if method = ''gaussian'' then
        map_err (\<lambda>spectrum. get_gaussian_center E (self_velax e) spectrum) (self_spectra e)
      else Inl BadMethod)"

text \<open>\<^verbatim>\<open>deprojected_spectrum_maximum\<close>: one row of shifted coordinates per peak velocity.\<close>

definition deprojected_spectrum_maximum ::
  "('gp, 'chain) ext \<Rightarrow> ensemble \<Rightarrow> pyarg \<Rightarrow> string \<Rightarrow> error + (fl list \<times> fl list)"
where
  "deprojected_spectrum_maximum E e resample method_arg =
     bind_err (peak_velocities E e method_arg) (\<lambda>vmax.
       let vpnts = map (\<lambda>dv. map (\<lambda>v. fl_sub v dv) (self_velax e))
                       (map (\<lambda>v. fl_sub v (np_median E vmax)) vmax) in
       bind_err (order_spectra E e (concat vpnts) None) (\<lambda>(vp, sp).
         resample_spectra E e vp sp resample))"

section \<open>Prior, likelihood and posterior\<close>

text \<open>\<^verbatim>\<open>_get_masked_spectra\<close>: the deprojected points inside the 30th to 70th percentile
  window of the velocity axis.\<close>

definition get_masked_spectra ::
  "('gp, 'chain) ext \<Rightarrow> ensemble \<Rightarrow> fl list \<Rightarrow> pyarg \<Rightarrow> error + (fl list \<times> fl list)"
where
  "get_masked_spectra E e theta resample =
     bind_err (nth_err theta 0) (\<lambda>vrot.
     bind_err (deprojected_spectrum E e vrot resample) (\<lambda>(x, y).
       let mask = map (\<lambda>v. fl_ge v (fst (self_velax_mask e)) \<and> fl_le v (snd (self_velax_mask e))) x in
       bind_err (take_mask x mask) (\<lambda>xm.
       bind_err (take_mask y mask) (\<lambda>ym. Inr (xm, ym)))))"

definition np_nanmean :: "fl list \<Rightarrow> fl" where
  "np_nanmean y =
     (let vals = filter (\<lambda>v. \<not> np_isnan v) y in
      if vals = [] then NaN else fl_div (np_sum vals) (Fin (real (length vals))))"

text \<open>\<^verbatim>\<open>_build_kernel\<close>: the celerite model is built by the library from the logarithm of
  the noise, the two Matern parameters and the mean of the data; \<open>None\<close> when
  \<^verbatim>\<open>gp.compute\<close> raises.\<close>

definition build_kernel ::
  "('gp, 'chain) ext \<Rightarrow> fl list \<Rightarrow> fl list \<Rightarrow> fl list \<Rightarrow> error + 'gp option"
where
  "build_kernel E x y theta =
     (case theta of
        [vrot, noise, lnsigma, lnrho] \<Rightarrow>
          Inr (gp_compute E (np_log noise) lnsigma lnrho (np_nanmean y) x)
      | _ \<Rightarrow> Inl UnpackError)"

text \<open>\<^verbatim>\<open>_lnprior\<close>: five rejection tests in the order of the source.\<close>

definition lnprior :: "fl list \<Rightarrow> fl \<Rightarrow> error + fl" where
  "lnprior theta vref =
     (case theta of
        [vrot, noise, lnsigma, lnrho] \<Rightarrow>
          if fl_gt (fl_div (fl_abs (fl_sub vrot vref)) vref) (Fin 0.2) then Inr NInf
          else if fl_le vrot (Fin 0) then Inr NInf
          else if fl_le noise (Fin 0) then Inr NInf
          else if \<not> (fl_lt (Fin (- 15)) lnsigma \<and> fl_lt lnsigma (Fin 10)) then Inr NInf
          else if \<not> (fl_le (Fin 0) lnrho \<and> fl_le lnrho (Fin 10)) then Inr NInf
          else Inr (Fin 0)
      | _ \<Rightarrow> Inl UnpackError)"

definition lnlikelihood ::
  "('gp, 'chain) ext \<Rightarrow> ensemble \<Rightarrow> fl list \<Rightarrow> pyarg \<Rightarrow> error + fl"
where
  "lnlikelihood E e theta resample =
     bind_err (get_masked_spectra E e theta resample) (\<lambda>(x, y).
     bind_err (build_kernel E x y theta) (\<lambda>gp.
       case gp of
         None \<Rightarrow> Inr NInf
       | Some g \<Rightarrow>
           (let ll = gp_log_likelihood E g y in
            Inr (if np_isfinite ll then ll else NInf))))"

text \<open>\<^verbatim>\<open>_lnprobability\<close>. The source negates \<^verbatim>\<open>np.isfinite\<close> of the prior with \<^verbatim>\<open>~\<close>; on the
  numpy boolean that \<^verbatim>\<open>np.isfinite\<close> returns this is the logical negation.\<close>

definition lnprobability ::
  "('gp, 'chain) ext \<Rightarrow> ensemble \<Rightarrow> fl list \<Rightarrow> fl \<Rightarrow> pyarg \<Rightarrow> error + fl"
where
  "lnprobability E e theta vref resample =
     bind_err (lnprior theta vref) (\<lambda>lp.
       if \<not> np_isfinite lp then Inr NInf
       else lnlikelihood E e theta resample)"

text \<open>The three negative log-likelihoods; \<^verbatim>\<open>np.insert(hyperparams, 0, vrot)\<close> puts the
  rotation velocity in front of the hyper-parameters.\<close>

definition negative_lnlikelihood ::
  "('gp, 'chain) ext \<Rightarrow> ensemble \<Rightarrow> fl list \<Rightarrow> pyarg \<Rightarrow> error + fl"
where
  "negative_lnlikelihood E e theta resample =
     bind_err (lnlikelihood E e theta resample) (\<lambda>ll.
       let nll = fl_neg ll in Inr (if np_isfinite nll then nll else Fin (10 ^ 15)))"

definition negative_lnlikelihood_hyper ::
  "('gp, 'chain) ext \<Rightarrow> ensemble \<Rightarrow> fl list \<Rightarrow> fl \<Rightarrow> pyarg \<Rightarrow> error + fl"
where
  "negative_lnlikelihood_hyper E e hyperparams vrot resample =
     (let theta = vrot # hyperparams in
      bind_err (lnlikelihood E e theta resample) (\<lambda>ll.
        let nll = fl_neg ll in Inr (if np_isfinite nll then nll else Fin (10 ^ 15))))"

definition negative_lnlikelihood_vrot ::
  "('gp, 'chain) ext \<Rightarrow> ensemble \<Rightarrow> fl list \<Rightarrow> fl list \<Rightarrow> pyarg \<Rightarrow> error + fl"
where
  "negative_lnlikelihood_vrot E e vrot hyperparams resample =
     (let theta = vrot @ hyperparams in
      bind_err (lnlikelihood E e theta resample) (\<lambda>ll.
        let nll = fl_neg ll in Inr (if np_isfinite nll then nll else Fin (10 ^ 15))))"

section \<open>The staged optimizer\<close>

text \<open>
  \<^verbatim>\<open>_optimize_p0\<close> assigns into numpy arrays through names that share one array, so the
  arrays live in a store and the names \<^verbatim>\<open>p0\<close> and \<^verbatim>\<open>p0_temp\<close> hold references.
  \<^verbatim>\<open>p0_temp = p0\<close> copies the reference; \<^verbatim>\<open>p0_temp[1:] = res.x\<close> and \<^verbatim>\<open>p0_temp[0] = res.x\<close>
  write into the array it refers to; \<^verbatim>\<open>p0_temp = res.x\<close> refers to the new array the
  minimizer returned.
\<close>

record store =
  cells :: "nat \<Rightarrow> fl list"
  next_ref :: nat

type_synonym optstate = "store \<times> nat \<times> fl"

text \<open>\<^verbatim>\<open>a[1:] = v\<close> and \<^verbatim>\<open>a[0] = v\<close> for an array \<open>v\<close>: numpy broadcasts one element and
  refuses every other shape that does not fit.\<close>

definition assign_tail :: "fl list \<Rightarrow> fl list \<Rightarrow> error + fl list" where
  "assign_tail a v =
     (if length v = length a - 1 then Inr (take 1 a @ v)
      else if length v = 1 then Inr (take 1 a @ replicate (length a - 1) (hd v))
      else Inl BroadcastError)"

definition assign_head :: "fl list \<Rightarrow> fl list \<Rightarrow> error + fl list" where
  "assign_head a v =
     (if a = [] then Inl IndexError
      else if length v = 1 then Inr (a[0 := hd v])
      else Inl BroadcastError)"

definition write_cell :: "store \<Rightarrow> nat \<Rightarrow> fl list \<Rightarrow> store" where
  "write_cell s r a = s\<lparr>cells := (cells s)(r := a)\<rparr>"

definition new_cell :: "store \<Rightarrow> fl list \<Rightarrow> store \<times> nat" where
  "new_cell s a = (s\<lparr>cells := (cells s)(next_ref s := a), next_ref := Suc (next_ref s)\<rparr>, next_ref s)"

definition stage_hyper ::
  "('gp, 'chain) ext \<Rightarrow> ensemble \<Rightarrow> pyarg \<Rightarrow> (fl \<times> fl option) list \<Rightarrow> optstate \<Rightarrow> error + optstate"
where
  "stage_hyper E e resample bounds st =
     (case st of (s, p0, nlnL) \<Rightarrow>
        bind_err (nth_err (cells s p0) 0) (\<lambda>vrot.
        bind_err (minimize E (\<lambda>h. negative_lnlikelihood_hyper E e h vrot resample)
                    (tl (cells s p0)) (tl bounds)) (\<lambda>res.
          if res_success res then
            (let p0_temp = p0 in
             bind_err (assign_tail (cells s p0_temp) (res_x res)) (\<lambda>a.
               let s1 = write_cell s p0_temp a in
               bind_err (negative_lnlikelihood E e (cells s1 p0_temp) resample) (\<lambda>nlnL_temp.
                 if fl_lt nlnL_temp nlnL then Inr (s1, p0_temp, nlnL_temp)
                 else Inr (s1, p0, nlnL))))
          else Inr (s, p0, nlnL))))"

definition stage_vrot ::
  "('gp, 'chain) ext \<Rightarrow> ensemble \<Rightarrow> pyarg \<Rightarrow> (fl \<times> fl option) list \<Rightarrow> optstate \<Rightarrow> error + optstate"
where
  "stage_vrot E e resample bounds st =
     (case st of (s, p0, nlnL) \<Rightarrow>
        bind_err (nth_err (cells s p0) 0) (\<lambda>vrot.
        bind_err (minimize E (\<lambda>v. negative_lnlikelihood_vrot E e v (tl (cells s p0)) resample)
                    [vrot] (take 1 bounds)) (\<lambda>res.
          if res_success res then
            (let p0_temp = p0 in
             bind_err (assign_head (cells s p0_temp) (res_x res)) (\<lambda>a.
               let s1 = write_cell s p0_temp a in
               bind_err (negative_lnlikelihood E e (cells s1 p0_temp) resample) (\<lambda>nlnL_temp.
                 if fl_lt nlnL_temp nlnL then Inr (s1, p0_temp, nlnL_temp)
                 else Inr (s1, p0, nlnL))))
          else Inr (s, p0, nlnL))))"

definition stage_joint ::
  "('gp, 'chain) ext \<Rightarrow> ensemble \<Rightarrow> pyarg \<Rightarrow> (fl \<times> fl option) list \<Rightarrow> optstate \<Rightarrow> error + optstate"
where
  "stage_joint E e resample bounds st =
     (case st of (s, p0, nlnL) \<Rightarrow>
        bind_err (minimize E (\<lambda>th. negative_lnlikelihood E e th resample)
                    (cells s p0) bounds) (\<lambda>res.
          if res_success res then
            (case new_cell s (res_x res) of (s1, p0_temp) \<Rightarrow>
               bind_err (negative_lnlikelihood E e (cells s1 p0_temp) resample) (\<lambda>nlnL_temp.
                 if fl_lt nlnL_temp nlnL then Inr (s1, p0_temp, nlnL_temp)
                 else Inr (s1, p0, nlnL)))
          else Inr (s, p0, nlnL)))"

text \<open>One pass of the loop body: the bounds are computed from the current \<^verbatim>\<open>p0[0]\<close>, then
  the three minimizations run in turn.\<close>

definition optimize_iter ::
  "('gp, 'chain) ext \<Rightarrow> ensemble \<Rightarrow> pyarg \<Rightarrow> optstate \<Rightarrow> error + optstate"
where
  "optimize_iter E e resample st =
     (case st of (s, p0, nlnL) \<Rightarrow>
        bind_err (nth_err (cells s p0) 0) (\<lambda>v.
          let bounds = [(fl_mul (Fin 0.8) v, Some (fl_mul (Fin 1.2) v)),
                        (Fin 0, None),
                        (Fin (- 15), Some (Fin 10)),
                        (Fin 0, Some (Fin 10))] in
          bind_err (stage_hyper E e resample bounds st) (\<lambda>st1.
          bind_err (stage_vrot E e resample bounds st1) (\<lambda>st2.
            stage_joint E e resample bounds st2))))"

fun optimize_loop ::
  "('gp, 'chain) ext \<Rightarrow> ensemble \<Rightarrow> pyarg \<Rightarrow> nat \<Rightarrow> optstate \<Rightarrow> error + optstate"
where
  "optimize_loop E e resample 0 st = Inr st"
| "optimize_loop E e resample (Suc n) st =
     bind_err (optimize_iter E e resample st) (\<lambda>st1. optimize_loop E e resample n st1)"

text \<open>\<^verbatim>\<open>_optimize_p0\<close>: \<open>N\<close> passes, \<^verbatim>\<open>range(int(N))\<close> being empty for a negative \<open>N\<close>. The result
  is the store and the reference that \<^verbatim>\<open>p0\<close> holds at the end.\<close>

definition optimize_p0 ::
  "('gp, 'chain) ext \<Rightarrow> ensemble \<Rightarrow> store \<Rightarrow> nat \<Rightarrow> pyarg \<Rightarrow> pyarg \<Rightarrow> error + (store \<times> nat)"
where
  "optimize_p0 E e s p0 N resample =
     bind_err (negative_lnlikelihood E e (cells s p0) resample) (\<lambda>nlnL.
     bind_err (py_int (py_float N)) (\<lambda>n.
     bind_err (optimize_loop E e resample (nat n) (s, p0, nlnL)) (\<lambda>(s1, p1, nlnL1).
       Inr (s1, p1))))"

section \<open>The sampling driver\<close>
















section \<open>Reference behaviours of the libraries\<close>

text \<open>
  Concrete library behaviours, used to run the model on concrete inputs. First the
  index sort by insertion behind equal keys, which is what \<^verbatim>\<open>np.argsort\<close> returns
  whenever the keys are distinct.
\<close>

fun ins_stable :: "fl list \<Rightarrow> nat \<Rightarrow> nat list \<Rightarrow> nat list" where
  "ins_stable a i [] = [i]"
| "ins_stable a i (j # js) =
     (if sort_le (a ! j) (a ! i) then j # ins_stable a i js else i # j # js)"

definition argsort_stable :: "fl list \<Rightarrow> nat list" where
  "argsort_stable a = foldl (\<lambda>js i. ins_stable a i js) [] [0..<length a]"

text \<open>
  The index sort that \<^verbatim>\<open>np.argsort\<close> runs on up to four doubles without not-a-number
  where NumPy sorts with vector instructions: the keys fill four lanes, missing lanes
  hold infinity, and the lanes go through the compare-exchanges \<open>(0,1) (2,3)\<close>,
  \<open>(0,3) (1,2)\<close>, \<open>(0,1) (2,3)\<close>. An exchange moves the index with its key and happens
  only when the key of the upper lane is the smaller one. Longer arrays and arrays with
  not-a-number take other paths of the library, which are not described here: the
  insertion sort is used for them.
\<close>

definition cmpx :: "nat \<Rightarrow> nat \<Rightarrow> (fl \<times> nat) list \<Rightarrow> (fl \<times> nat) list" where
  "cmpx i j lanes =
     (if fl_lt (fst (lanes ! j)) (fst (lanes ! i)) then lanes[i := lanes ! j, j := lanes ! i]
      else lanes)"

definition argsort_network :: "fl list \<Rightarrow> nat list" where
  "argsort_network a =
     (if length a \<le> 4 \<and> list_all (\<lambda>v. \<not> np_isnan v) a then
        map snd (take (length a)
          (cmpx 2 3 (cmpx 0 1 (cmpx 1 2 (cmpx 0 3 (cmpx 2 3 (cmpx 0 1
             (zip (a @ replicate (4 - length a) PInf)
                  ([0..<length a] @ replicate (4 - length a) 0)))))))))
      else argsort_stable a)"

text \<open>The percentile by linear interpolation between the two nearest ranks.\<close>

definition percentile_linear :: "fl list \<Rightarrow> real \<Rightarrow> fl" where
  "percentile_linear a q =
     (let s = map ((!) a) (argsort_stable a);
          pos = q / 100 * real (length a - 1);
          k = nat \<lfloor>pos\<rfloor> in
      if a = [] then NaN
      else if Suc k < length s then
        fl_add (s ! k) (fl_mul (Fin (pos - real k)) (fl_sub (s ! Suc k) (s ! k)))
      else s ! k)"

text \<open>
  Equal-width binning as \<^verbatim>\<open>scipy.stats.binned_statistic\<close> documents it for an integer
  number of bins and a range: \<open>n + 1\<close> evenly spaced edges, every bin closed on the
  left and open on the right but the last, which is closed; the mean of a bin without
  samples is not-a-number.
\<close>

definition bin_edge :: "real \<Rightarrow> real \<Rightarrow> nat \<Rightarrow> nat \<Rightarrow> real" where
  "bin_edge lo hi n k = lo + real k * ((hi - lo) / real n)"

definition in_bin :: "real \<Rightarrow> real \<Rightarrow> nat \<Rightarrow> nat \<Rightarrow> fl \<Rightarrow> bool" where
  "in_bin lo hi n i v =
     (case v of
        Fin a \<Rightarrow> bin_edge lo hi n i \<le> a \<and> (a < bin_edge lo hi n (Suc i) \<or> (Suc i = n \<and> a = hi))
      | _ \<Rightarrow> False)"

definition bin_mean :: "real \<Rightarrow> real \<Rightarrow> nat \<Rightarrow> fl list \<Rightarrow> fl list \<Rightarrow> nat \<Rightarrow> fl" where
  "bin_mean lo hi n vpnts spnts i =
     (let vals = map snd (filter (\<lambda>(v, s). in_bin lo hi n i v) (zip vpnts spnts)) in
      if vals = [] then NaN else fl_div (np_sum vals) (Fin (real (length vals))))"

definition binned_mean :: "fl list \<Rightarrow> fl list \<Rightarrow> int \<Rightarrow> fl \<times> fl \<Rightarrow> error + (fl list \<times> fl list)" where
  "binned_mean vpnts spnts bins rng =
     (case rng of
        (Fin lo, Fin hi) \<Rightarrow>
          if 0 < bins \<and> lo < hi then
            Inr (map (bin_mean lo hi (nat bins) vpnts spnts) [0..<nat bins],
                 map (\<lambda>k. Fin (bin_edge lo hi (nat bins) k)) [0..<Suc (nat bins)])
          else Inl (External ''binned_statistic'')
      | _ \<Rightarrow> Inl (External ''binned_statistic''))"


text \<open>A Gaussian fit that converges at its initial guess, a centroid estimate without
  sub-pixel refinement, and a bounded minimizer that projects the start into the bounds
  and reports convergence there.\<close>

definition fit_at_guess :: "fl list \<Rightarrow> fl list \<Rightarrow> fl \<times> fl \<times> fl \<Rightarrow> (fl \<times> fl \<times> fl) option" where
  "fit_at_guess x y p0 = Some p0"

definition sho_fit_at_guess :: "bool \<Rightarrow> fl list \<Rightarrow> fl list \<Rightarrow> fl list \<Rightarrow> fl list option" where
  "sho_fit_at_guess fix_theta x y p0 = Some p0"

definition centroid_at_peak :: "fl list \<Rightarrow> fl \<Rightarrow> fl \<Rightarrow> error + fl" where
  "centroid_at_peak spectrum x0 dx =
     bind_err (np_argmax spectrum) (\<lambda>i. Inr (fl_add x0 (fl_mul (Fin (real i)) dx)))"

fun fl_clip :: "fl \<Rightarrow> fl \<times> fl option \<Rightarrow> fl" where
  "fl_clip v (lo, None) = (if fl_lt v lo then lo else v)"
| "fl_clip v (lo, Some hi) = (if fl_lt v lo then lo else if fl_gt v hi then hi else v)"

definition minimize_projected ::
  "(fl list \<Rightarrow> error + fl) \<Rightarrow> fl list \<Rightarrow> (fl \<times> fl option) list \<Rightarrow> error + optres"
where
  "minimize_projected f x0 bounds =
     Inr \<lparr> res_success = True, res_x = map (\<lambda>(v, b). fl_clip v b) (zip x0 bounds) \<rparr>"

text \<open>A likelihood whose optimum in the signal amplitude, \<open>lnsigma = 12\<close>, lies above the
  bound 10 of the optimizer; and a sampler that refuses a start that is not finite, as
  emcee does, and whose walkers never move otherwise.\<close>

definition gp_keep_lnsigma :: "fl \<Rightarrow> fl \<Rightarrow> fl \<Rightarrow> fl \<Rightarrow> fl list \<Rightarrow> fl option" where
  "gp_keep_lnsigma log_noise lnsigma lnrho mean x = Some lnsigma"

definition ll_peak_at_12 :: "fl \<Rightarrow> fl list \<Rightarrow> fl" where
  "ll_peak_at_12 g y = fl_neg (fl_abs (fl_sub g (Fin 12)))"

definition mcmc_checked ::
  "(fl list \<Rightarrow> error + fl) \<Rightarrow> fl list list \<Rightarrow> nat \<Rightarrow> error + fl list list list"
where
  "mcmc_checked lnprob p0 n =
     (if list_all (list_all np_isfinite) p0 then Inr (map (replicate n) p0)
      else Inl (External ''At least one parameter value was infinite''))"

definition ref_ext :: "(fl, fl list list list) ext" where
  "ref_ext =
     \<lparr> np_argsort = argsort_stable,
       np_percentile = percentile_linear,
       np_median = (\<lambda>a. percentile_linear a 50),
       binned_statistic = binned_mean,
       curve_fit = fit_at_guess,
       curve_fit_sho = sho_fit_at_guess,
       quadratic = centroid_at_peak,
       minimize = minimize_projected,
       gp_compute = gp_keep_lnsigma,
       gp_log_likelihood = ll_peak_at_12,
       run_mcmc = mcmc_checked,
       chain_of = (\<lambda>c. c) \<rparr>"

text \<open>The two steps of the constructor on one array: the permutation by the sorted
  indices of the angles, and the mask of the rows of the argument \<^verbatim>\<open>spectra\<close> whose sum
  is positive.\<close>

definition sorted_part :: "('gp, 'chain) ext \<Rightarrow> bool \<Rightarrow> 'a list \<Rightarrow> fl list \<Rightarrow> 'a list" where
  "sorted_part E so xs theta = (if so then map ((!) xs) (np_argsort E theta) else xs)"

definition kept_part :: "bool \<Rightarrow> fl list list \<Rightarrow> 'a list \<Rightarrow> 'a list" where
  "kept_part re spectra xs =
     (if re then map fst (filter snd (zip xs (map (\<lambda>row. fl_gt (np_sum row) (Fin 0)) spectra)))
      else xs)"

text \<open>
  The pairing that the description of \<^verbatim>\<open>deprojected_spectrum\<close> asks for: sample \<open>(a, c)\<close> of
  the stored ensemble gives the coordinate \<^verbatim>\<open>velax[c] - vrot * cos(theta[a])\<close> with the
  intensity \<^verbatim>\<open>self.spectra[a][c]\<close>.
\<close>

definition paired_samples :: "ensemble \<Rightarrow> fl \<Rightarrow> (fl \<times> fl) list" where
  "paired_samples e vrot =
     concat (map (\<lambda>(t, row).
                    map (\<lambda>(v, s). (fl_sub v (fl_mul vrot (np_cos t)), s)) (zip (self_velax e) row))
                 (zip (self_theta e) (self_spectra e)))"

text \<open>One spectrum at the angle \<open>0\<close> on three channels, as the constructor stores it.\<close>

definition single_ensemble :: ensemble where
  "single_ensemble =
     \<lparr> self_theta = [Fin 0],
       self_spectra = [[Fin 1, Fin 2, Fin 3]],
       self_theta_deg = [Fin 0],
       self_spectra_flat = [Fin 1, Fin 2, Fin 3],
       self_velax = [Fin 0, Fin 1, Fin 2],
       self_channel = Fin 1,
       self_velax_range = (Fin (- 1 / 2), Fin (5 / 2)),
       self_velax_mask = (Fin (3 / 5), Fin (7 / 5)) \<rparr>"

text \<open>A store whose array at reference \<open>0\<close> is the given parameter vector.\<close>

definition store_of :: "fl list \<Rightarrow> store" where
  "store_of p = \<lparr> cells = (\<lambda>r. if r = 0 then p else []), next_ref = 1 \<rparr>"

text \<open>One line that peaks at the velocity \<open>-1\<close>, and the ensemble that is left of two
  spectra when the first is empty; both as the constructor stores them.\<close>

definition negative_line_ensemble :: ensemble where
  "negative_line_ensemble =
     \<lparr> self_theta = [Fin 0],
       self_spectra = [[Fin 0, Fin 1, Fin 0]],
       self_theta_deg = [Fin 0],
       self_spectra_flat = [Fin 0, Fin 1, Fin 0],
       self_velax = [Fin (- 2), Fin (- 1), Fin 0],
       self_channel = Fin 1,
       self_velax_range = (Fin (- 5 / 2), Fin (1 / 2)),
       self_velax_mask = (Fin (- 7 / 5), Fin (- 3 / 5)) \<rparr>"

definition short_ensemble :: ensemble where
  "short_ensemble =
     \<lparr> self_theta = [Fin 2],
       self_spectra = [[Fin 3, Fin 4]],
       self_theta_deg = map (\<lambda>t. fl_mod (np_degrees t) (Fin 360)) [Fin 1, Fin 2],
       self_spectra_flat = [Fin 0, Fin 0, Fin 3, Fin 4],
       self_velax = [Fin 0, Fin 1],
       self_channel = Fin 1,
       self_velax_range = (Fin (- 1 / 2), Fin (3 / 2)),
       self_velax_mask = (percentile_linear [Fin 0, Fin 1] 30,
                          percentile_linear [Fin 0, Fin 1] 70) \<rparr>"

section \<open>Properties of the constructor\<close>

lemma bind_err_Inr: "bind_err m f = Inr b \<Longrightarrow> \<exists>a. m = Inr a \<and> f a = Inr b"
  by (cases m) (simp_all add: bind_err_def)

lemma take_idx_Inr: "take_idx xs idxs = Inr ys \<Longrightarrow> ys = map ((!) xs) idxs"
  by (auto simp: take_idx_def split: if_splits)

lemma take_mask_Inr:
  "take_mask xs m = Inr ys \<Longrightarrow> ys = map fst (filter snd (zip xs m)) \<and> length m = length xs"
  by (auto simp: take_mask_def split: if_splits)

lemma nth_err_Inr: "nth_err xs i = Inr v \<Longrightarrow> i < length xs \<and> v = xs ! i"
  by (auto simp: nth_err_def split: if_splits)

lemma sorted_wrt_mask:
  "sorted_wrt P xs \<Longrightarrow> sorted_wrt P (map fst (filter snd (zip xs m)))"
proof (induction xs arbitrary: m)
  case Nil
  then show ?case by simp
next
  case (Cons x xs)
  show ?case
  proof (cases m)
    case Nil
    then show ?thesis by simp
  next
    case (Cons b bs)
    have sub: "set (map fst (filter snd (zip xs bs))) \<subseteq> set xs"
      by (auto dest: set_zip_leftD)
    from Cons.prems have "\<forall>y\<in>set xs. P x y" and "sorted_wrt P xs" by simp_all
    with Cons.IH[of bs] sub show ?thesis using Cons by (auto dest: set_zip_leftD)
  qed
qed

lemma length_mask:
  "length m = length xs \<Longrightarrow> length (filter snd (zip xs m)) = length (filter id m)"
proof (induction xs arbitrary: m)
  case Nil
  then show ?case by simp
next
  case (Cons x xs)
  then show ?case by (cases m) auto
qed

lemma filter_id_map: "length (filter id (map f xs)) = length (filter f xs)"
  by (induction xs) auto

lemma ensemble_init_fields:
  assumes "ensemble_init E spectra theta velax re so = Inr e"
  shows "self_theta e = kept_part re spectra (sorted_part E so theta theta)"
    and "self_spectra e = kept_part re spectra (sorted_part E so spectra theta)"
    and "re \<Longrightarrow> length (sorted_part E so theta theta) = length spectra"
    and "re \<Longrightarrow> length (sorted_part E so spectra theta) = length spectra"
    and "self_spectra_flat e = concat spectra"
    and "self_velax e = velax"
    and "2 \<le> length velax"
    and "1 \<le> length (self_theta e)"
    and "self_velax_range e =
           (fl_sub (velax ! 0) (fl_mul (Fin 0.5) (fl_sub (velax ! 1) (velax ! 0))),
            fl_add (last velax) (fl_mul (Fin 0.5) (fl_sub (velax ! 1) (velax ! 0))))"
    and "so \<Longrightarrow> list_all (\<lambda>i. i < length spectra) (np_argsort E theta)"
proof -
  have "\<exists>a. (if so then
          (let idxs = np_argsort E theta in
           bind_err (take_idx spectra idxs) (\<lambda>sp.
           bind_err (take_idx theta idxs) (\<lambda>th. Inr (th, sp))))
        else Inr (theta, spectra)) = Inr a \<and>
      (\<lambda>(th1, sp1).
     bind_err
       (if re then
          (let idxs = map (\<lambda>row. fl_gt (np_sum row) (Fin 0)) spectra in
           bind_err (take_mask th1 idxs) (\<lambda>th.
           bind_err (take_mask sp1 idxs) (\<lambda>sp. Inr (th, sp))))
        else Inr (th1, sp1))
     (\<lambda>(th2, sp2).
     if length th2 < 1 then Inl NoFiniteSpectra
     else
       bind_err (nth_err velax 1) (\<lambda>v1.
       bind_err (nth_err velax 0) (\<lambda>v0.
         let ch = fl_sub v1 v0 in
         Inr \<lparr> self_theta = th2,
               self_spectra = sp2,
               self_theta_deg = map (\<lambda>t. fl_mod (np_degrees t) (Fin 360)) theta,
               self_spectra_flat = concat spectra,
               self_velax = velax,
               self_channel = ch,
               self_velax_range =
                 (fl_sub v0 (fl_mul (Fin 0.5) ch), fl_add (last velax) (fl_mul (Fin 0.5) ch)),
               self_velax_mask = (np_percentile E velax 30, np_percentile E velax 70)
             \<rparr>)))) a = Inr e"
    using assms unfolding ensemble_init_def by (rule bind_err_Inr)
  then obtain th1 sp1 where
    s1: "(if so then
          (let idxs = np_argsort E theta in
           bind_err (take_idx spectra idxs) (\<lambda>sp.
           bind_err (take_idx theta idxs) (\<lambda>th. Inr (th, sp))))
        else Inr (theta, spectra)) = Inr (th1, sp1)"
    and r1: "bind_err
       (if re then
          (let idxs = map (\<lambda>row. fl_gt (np_sum row) (Fin 0)) spectra in
           bind_err (take_mask th1 idxs) (\<lambda>th.
           bind_err (take_mask sp1 idxs) (\<lambda>sp. Inr (th, sp))))
        else Inr (th1, sp1))
     (\<lambda>(th2, sp2).
     if length th2 < 1 then Inl NoFiniteSpectra
     else
       bind_err (nth_err velax 1) (\<lambda>v1.
       bind_err (nth_err velax 0) (\<lambda>v0.
         let ch = fl_sub v1 v0 in
         Inr \<lparr> self_theta = th2,
               self_spectra = sp2,
               self_theta_deg = map (\<lambda>t. fl_mod (np_degrees t) (Fin 360)) theta,
               self_spectra_flat = concat spectra,
               self_velax = velax,
               self_channel = ch,
               self_velax_range =
                 (fl_sub v0 (fl_mul (Fin 0.5) ch), fl_add (last velax) (fl_mul (Fin 0.5) ch)),
               self_velax_mask = (np_percentile E velax 30, np_percentile E velax 70)
             \<rparr>))) = Inr e"
    by auto
  from bind_err_Inr[OF r1] obtain th2 sp2 where
    s2: "(if re then
          (let idxs = map (\<lambda>row. fl_gt (np_sum row) (Fin 0)) spectra in
           bind_err (take_mask th1 idxs) (\<lambda>th.
           bind_err (take_mask sp1 idxs) (\<lambda>sp. Inr (th, sp))))
        else Inr (th1, sp1)) = Inr (th2, sp2)"
    and r2: "(if length th2 < 1 then Inl NoFiniteSpectra
     else
       bind_err (nth_err velax 1) (\<lambda>v1.
       bind_err (nth_err velax 0) (\<lambda>v0.
         let ch = fl_sub v1 v0 in
         Inr \<lparr> self_theta = th2,
               self_spectra = sp2,
               self_theta_deg = map (\<lambda>t. fl_mod (np_degrees t) (Fin 360)) theta,
               self_spectra_flat = concat spectra,
               self_velax = velax,
               self_channel = ch,
               self_velax_range =
                 (fl_sub v0 (fl_mul (Fin 0.5) ch), fl_add (last velax) (fl_mul (Fin 0.5) ch)),
               self_velax_mask = (np_percentile E velax 30, np_percentile E velax 70)
             \<rparr>))) = Inr e"
    by auto
  have s3: "\<not> length th2 < 1" using r2 by (auto split: if_splits)
  with r2 have r3: "bind_err (nth_err velax 1) (\<lambda>v1.
       bind_err (nth_err velax 0) (\<lambda>v0.
         let ch = fl_sub v1 v0 in
         Inr \<lparr> self_theta = th2,
               self_spectra = sp2,
               self_theta_deg = map (\<lambda>t. fl_mod (np_degrees t) (Fin 360)) theta,
               self_spectra_flat = concat spectra,
               self_velax = velax,
               self_channel = ch,
               self_velax_range =
                 (fl_sub v0 (fl_mul (Fin 0.5) ch), fl_add (last velax) (fl_mul (Fin 0.5) ch)),
               self_velax_mask = (np_percentile E velax 30, np_percentile E velax 70)
             \<rparr>)) = Inr e" by simp
  from bind_err_Inr[OF r3] obtain v1 where s4: "nth_err velax 1 = Inr v1"
    and r4: "bind_err (nth_err velax 0) (\<lambda>v0.
         let ch = fl_sub v1 v0 in
         Inr \<lparr> self_theta = th2,
               self_spectra = sp2,
               self_theta_deg = map (\<lambda>t. fl_mod (np_degrees t) (Fin 360)) theta,
               self_spectra_flat = concat spectra,
               self_velax = velax,
               self_channel = ch,
               self_velax_range =
                 (fl_sub v0 (fl_mul (Fin 0.5) ch), fl_add (last velax) (fl_mul (Fin 0.5) ch)),
               self_velax_mask = (np_percentile E velax 30, np_percentile E velax 70)
             \<rparr>) = Inr e" by auto
  from bind_err_Inr[OF r4] obtain v0 where s5: "nth_err velax 0 = Inr v0"
    and s6: "e = \<lparr> self_theta = th2,
               self_spectra = sp2,
               self_theta_deg = map (\<lambda>t. fl_mod (np_degrees t) (Fin 360)) theta,
               self_spectra_flat = concat spectra,
               self_velax = velax,
               self_channel = fl_sub v1 v0,
               self_velax_range =
                 (fl_sub v0 (fl_mul (Fin 0.5) (fl_sub v1 v0)), fl_add (last velax) (fl_mul (Fin 0.5) (fl_sub v1 v0))),
               self_velax_mask = (np_percentile E velax 30, np_percentile E velax 70)
             \<rparr>" by (auto simp: Let_def)
  have a: "th1 = sorted_part E so theta theta" "sp1 = sorted_part E so spectra theta"
    using s1 by (auto simp: sorted_part_def Let_def dest!: bind_err_Inr take_idx_Inr split: if_splits)
  have b: "th2 = kept_part re spectra th1" "sp2 = kept_part re spectra sp1"
    "re \<Longrightarrow> length th1 = length spectra" "re \<Longrightarrow> length sp1 = length spectra"
    using s2 by (auto simp: kept_part_def Let_def dest!: bind_err_Inr take_mask_Inr split: if_splits)
  show "self_theta e = kept_part re spectra (sorted_part E so theta theta)"
    using a b s6 by simp
  show "self_spectra e = kept_part re spectra (sorted_part E so spectra theta)"
    using a b s6 by simp
  show "re \<Longrightarrow> length (sorted_part E so theta theta) = length spectra" using a b by simp
  show "re \<Longrightarrow> length (sorted_part E so spectra theta) = length spectra" using a b by simp
  show "self_spectra_flat e = concat spectra" using s6 by simp
  show "self_velax e = velax" using s6 by simp
  show "2 \<le> length velax" using s4 by (auto dest: nth_err_Inr)
  show "1 \<le> length (self_theta e)" using s3 s6 by (cases th2) simp_all
  show "self_velax_range e =
           (fl_sub (velax ! 0) (fl_mul (Fin 0.5) (fl_sub (velax ! 1) (velax ! 0))),
            fl_add (last velax) (fl_mul (Fin 0.5) (fl_sub (velax ! 1) (velax ! 0))))"
    using s4 s5 s6 by (auto dest!: nth_err_Inr)
  show "so \<Longrightarrow> list_all (\<lambda>i. i < length spectra) (np_argsort E theta)"
    using s1 by (auto simp: Let_def take_idx_def dest!: bind_err_Inr split: if_splits)
qed


lemma argsort_sorts_length: "argsort_sorts f a \<Longrightarrow> length (f a) = length a"
proof -
  assume "argsort_sorts f a"
  then have "sort (f a) = [0..<length a]" by (simp add: argsort_sorts_def)
  then have "length (sort (f a)) = length [0..<length a]" by simp
  then show ?thesis by simp
qed

lemma length_kept_part:
  "length xs = length spectra \<Longrightarrow>
   length (kept_part True spectra xs) = length (filter (\<lambda>row. fl_gt (np_sum row) (Fin 0)) spectra)"
  by (simp add: kept_part_def length_mask filter_id_map)

lemma zip_mask_subset:
  "set (zip (map fst (filter snd (zip xs m))) (map fst (filter snd (zip ys m)))) \<subseteq> set (zip xs ys)"
proof (induction m arbitrary: xs ys)
  case Nil
  then show ?case by simp
next
  case (Cons b bs)
  show ?case
  proof (cases xs)
    case Nil
    then show ?thesis by simp
  next
    case xs: (Cons x xs')
    show ?thesis
    proof (cases ys)
      case Nil
      then show ?thesis by simp
    next
      case ys: (Cons y ys')
      from Cons.IH[of xs' ys'] show ?thesis unfolding xs ys by auto
    qed
  qed
qed

lemma zip_nth_subset:
  "list_all (\<lambda>i. i < length xs) is \<Longrightarrow> list_all (\<lambda>i. i < length ys) is \<Longrightarrow>
   set (zip (map ((!) xs) is) (map ((!) ys) is)) \<subseteq> set (zip xs ys)"
proof (induction "is")
  case Nil
  then show ?case by simp
next
  case (Cons i js)
  then have "(xs ! i, ys ! i) \<in> set (zip xs ys)"
    by (auto simp: set_zip)
  with Cons show ?case by simp
qed

text \<open>
  C4 (amended). With sorting enabled, whenever the constructor returns, the stored angles
  are in the ascending order of the sort (not-a-number last), and every stored pair of an
  angle and a spectrum is a pair of the input. This holds for every index sort that
  \<^verbatim>\<open>np.argsort\<close> may be; the order of entries with equal angles is left to it.
\<close>

theorem stored_sorted_by_angle:
  assumes "ensemble_init E spectra theta velax remove_empty True = Inr e"
    and "argsort_sorts (np_argsort E) theta"
  shows "sorted_wrt sort_le (self_theta e)
       \<and> set (zip (self_theta e) (self_spectra e)) \<subseteq> set (zip theta spectra)"
proof -
  note f = ensemble_init_fields[OF assms(1)]
  have srt: "sorted_wrt sort_le (sorted_part E True theta theta)"
    using assms(2) by (simp add: argsort_sorts_def sorted_part_def)
  have 1: "sorted_wrt sort_le (self_theta e)"
    unfolding f(1) kept_part_def using srt by (simp add: sorted_wrt_mask)
  have "set (np_argsort E theta) = set (sort (np_argsort E theta))" by simp
  also have "\<dots> = {0..<length theta}" using assms(2) by (simp add: argsort_sorts_def)
  finally have i1: "list_all (\<lambda>i. i < length theta) (np_argsort E theta)"
    by (simp add: list_all_iff)
  have i2: "list_all (\<lambda>i. i < length spectra) (np_argsort E theta)"
    using f(10) by simp
  have base: "set (zip (sorted_part E True theta theta) (sorted_part E True spectra theta))
                \<subseteq> set (zip theta spectra)"
    unfolding sorted_part_def using zip_nth_subset[OF i1 i2] by simp
  have "set (zip (self_theta e) (self_spectra e))
          \<subseteq> set (zip (sorted_part E True theta theta) (sorted_part E True spectra theta))"
    unfolding f(1) f(2) kept_part_def using zip_mask_subset by (cases remove_empty) auto
  with base 1 show ?thesis by blast
qed

theorem stored_sorted_by_angle_witness:
  "ensemble_init ref_ext [[Fin 1, Fin 2], [Fin 3, Fin 4]] [Fin 2, Fin 1] [Fin 0, Fin 1] False True =
     Inr \<lparr> self_theta = [Fin 1, Fin 2], self_spectra = [[Fin 3, Fin 4], [Fin 1, Fin 2]],
           self_theta_deg = map (\<lambda>t. fl_mod (np_degrees t) (Fin 360)) [Fin 2, Fin 1],
           self_spectra_flat = [Fin 1, Fin 2, Fin 3, Fin 4],
           self_velax = [Fin 0, Fin 1],
           self_channel = Fin 1,
           self_velax_range = (Fin (- 1 / 2), Fin (3 / 2)),
           self_velax_mask = (percentile_linear [Fin 0, Fin 1] 30,
                              percentile_linear [Fin 0, Fin 1] 70) \<rparr>
   \<and> argsort_sorts (np_argsort ref_ext) [Fin 2, Fin 1]
   \<and> sorted_wrt sort_le [Fin 1, Fin 2]"
proof -
  have h1: "ensemble_init ref_ext [[Fin 1, Fin 2], [Fin 3, Fin 4]] [Fin 2, Fin 1] [Fin 0, Fin 1]
              False True =
     Inr \<lparr> self_theta = [Fin 1, Fin 2], self_spectra = [[Fin 3, Fin 4], [Fin 1, Fin 2]],
           self_theta_deg = map (\<lambda>t. fl_mod (np_degrees t) (Fin 360)) [Fin 2, Fin 1],
           self_spectra_flat = [Fin 1, Fin 2, Fin 3, Fin 4],
           self_velax = [Fin 0, Fin 1],
           self_channel = Fin 1,
           self_velax_range = (Fin (- 1 / 2), Fin (3 / 2)),
           self_velax_mask = (percentile_linear [Fin 0, Fin 1] 30,
                              percentile_linear [Fin 0, Fin 1] 70) \<rparr>"
    by (simp add: ensemble_init_def bind_err_def take_idx_def nth_err_def ref_ext_def
        argsort_stable_def fl_sub_def Let_def upt_rec)
  have h2: "argsort_sorts (np_argsort ref_ext) [Fin 2, Fin 1]"
    by (simp add: argsort_sorts_def ref_ext_def argsort_stable_def upt_rec)
  from stored_sorted_by_angle[OF h1 h2] have "sorted_wrt sort_le [Fin 1, Fin 2]" by simp
  with h1 h2 show ?thesis by blast
qed

text \<open>
  C4, the stability: the angles \<open>(1, 1, 0, 0)\<close> come with the spectra \<open>(1, 1)\<close>, \<open>(2, 2)\<close>,
  \<open>(3, 3)\<close> and \<open>(4, 4)\<close>. The vectorised index sort of NumPy returns \<open>(3, 2, 1, 0)\<close>, which
  sorts the angles, and the constructor stores the spectra as \<open>(4, 4)\<close>, \<open>(3, 3)\<close>,
  \<open>(2, 2)\<close>, \<open>(1, 1)\<close>: both pairs of equal angles are in the reverse of their input
  order.
\<close>

theorem stored_ties_counterexample:
  "argsort_network [Fin 1, Fin 1, Fin 0, Fin 0] = [3, 2, 1, 0]
   \<and> argsort_sorts argsort_network [Fin 1, Fin 1, Fin 0, Fin 0]
   \<and> map_sum id (\<lambda>e. (self_theta e, self_spectra e))
       (ensemble_init (ref_ext\<lparr>np_argsort := argsort_network\<rparr>)
          [[Fin 1, Fin 1], [Fin 2, Fin 2], [Fin 3, Fin 3], [Fin 4, Fin 4]]
          [Fin 1, Fin 1, Fin 0, Fin 0] [Fin 0, Fin 1] True True)
     = Inr ([Fin 0, Fin 0, Fin 1, Fin 1],
            [[Fin 4, Fin 4], [Fin 3, Fin 3], [Fin 2, Fin 2], [Fin 1, Fin 1]])"
  by (simp add: argsort_sorts_def argsort_network_def cmpx_def ensemble_init_def bind_err_def
      take_idx_def take_mask_def nth_err_def ref_ext_def np_sum_def fl_gt_def fl_sub_def
      Let_def upt_rec)

text \<open>
  C9 (amended). With the default options, whenever the constructor returns, the stored
  angles are in the ascending order of the sort, and the number of stored angles equals
  the number of stored spectra and the number of rows of the input whose intensity sum
  is greater than zero.
\<close>

theorem stored_count:
  assumes "ensemble_init E spectra theta velax True True = Inr e"
    and "argsort_sorts (np_argsort E) theta"
  shows "sorted_wrt sort_le (self_theta e)
       \<and> length (self_theta e) = length (self_spectra e)
       \<and> length (self_theta e) = length (filter (\<lambda>row. fl_gt (np_sum row) (Fin 0)) spectra)"
proof -
  note f = ensemble_init_fields[OF assms(1)]
  have srt: "sorted_wrt sort_le (sorted_part E True theta theta)"
    using assms(2) by (simp add: argsort_sorts_def sorted_part_def)
  have 1: "sorted_wrt sort_le (self_theta e)"
    unfolding f(1) kept_part_def using srt by (simp add: sorted_wrt_mask)
  have 2: "length (self_theta e) = length (filter (\<lambda>row. fl_gt (np_sum row) (Fin 0)) spectra)"
    unfolding f(1) using f(3) by (simp add: length_kept_part)
  have 3: "length (self_spectra e) = length (filter (\<lambda>row. fl_gt (np_sum row) (Fin 0)) spectra)"
    unfolding f(2) using f(4) by (simp add: length_kept_part)
  from 1 2 3 show ?thesis by simp
qed

theorem stored_count_witness:
  "ensemble_init ref_ext [[Fin 0, Fin 0], [Fin 3, Fin 4], [Fin 1, Fin 1]] [Fin 3, Fin 2, Fin 1]
       [Fin 0, Fin 1] True True =
     Inr \<lparr> self_theta = [Fin 2, Fin 3], self_spectra = [[Fin 3, Fin 4], [Fin 0, Fin 0]],
           self_theta_deg = map (\<lambda>t. fl_mod (np_degrees t) (Fin 360)) [Fin 3, Fin 2, Fin 1],
           self_spectra_flat = [Fin 0, Fin 0, Fin 3, Fin 4, Fin 1, Fin 1],
           self_velax = [Fin 0, Fin 1],
           self_channel = Fin 1,
           self_velax_range = (Fin (- 1 / 2), Fin (3 / 2)),
           self_velax_mask = (percentile_linear [Fin 0, Fin 1] 30,
                              percentile_linear [Fin 0, Fin 1] 70) \<rparr>
   \<and> argsort_sorts (np_argsort ref_ext) [Fin 3, Fin 2, Fin 1]
   \<and> sorted_wrt sort_le [Fin 2, Fin 3]
   \<and> length (filter (\<lambda>row. fl_gt (np_sum row) (Fin 0))
               [[Fin 0, Fin 0], [Fin 3, Fin 4], [Fin 1, Fin 1]]) = 2"
proof -
  have h1: "ensemble_init ref_ext [[Fin 0, Fin 0], [Fin 3, Fin 4], [Fin 1, Fin 1]]
       [Fin 3, Fin 2, Fin 1] [Fin 0, Fin 1] True True =
     Inr \<lparr> self_theta = [Fin 2, Fin 3], self_spectra = [[Fin 3, Fin 4], [Fin 0, Fin 0]],
           self_theta_deg = map (\<lambda>t. fl_mod (np_degrees t) (Fin 360)) [Fin 3, Fin 2, Fin 1],
           self_spectra_flat = [Fin 0, Fin 0, Fin 3, Fin 4, Fin 1, Fin 1],
           self_velax = [Fin 0, Fin 1],
           self_channel = Fin 1,
           self_velax_range = (Fin (- 1 / 2), Fin (3 / 2)),
           self_velax_mask = (percentile_linear [Fin 0, Fin 1] 30,
                              percentile_linear [Fin 0, Fin 1] 70) \<rparr>"
    by (simp add: ensemble_init_def bind_err_def take_idx_def take_mask_def nth_err_def
        ref_ext_def argsort_stable_def np_sum_def fl_gt_def fl_sub_def Let_def upt_rec)
  have h2: "argsort_sorts (np_argsort ref_ext) [Fin 3, Fin 2, Fin 1]"
    by (simp add: argsort_sorts_def ref_ext_def argsort_stable_def upt_rec)
  from stored_count[OF h1 h2]
  have "sorted_wrt sort_le [Fin 2, Fin 3]
      \<and> length (filter (\<lambda>row. fl_gt (np_sum row) (Fin 0))
               [[Fin 0, Fin 0], [Fin 3, Fin 4], [Fin 1, Fin 1]]) = 2"
    by simp
  with h1 h2 show ?thesis by blast
qed

text \<open>
  C9 as stated: a row whose intensities sum to a negative number has a non-zero sum and
  is removed all the same, so one angle is stored where two rows have a non-zero sum.
\<close>

theorem stored_count_counterexample:
  "map_sum id (\<lambda>e. length (self_theta e))
       (ensemble_init ref_ext [[Fin (- 1), Fin 0], [Fin 1, Fin 2]] [Fin 1, Fin 2]
          [Fin 0, Fin 1] True True) = Inr 1
   \<and> length (filter (\<lambda>row. np_sum row \<noteq> Fin 0) [[Fin (- 1), Fin 0], [Fin 1, Fin 2]]) = 2"
  by (simp add: ensemble_init_def bind_err_def take_idx_def take_mask_def nth_err_def
      ref_ext_def argsort_stable_def np_sum_def fl_gt_def fl_sub_def Let_def upt_rec)

section \<open>Properties of the deprojection\<close>

lemma map_err_length: "map_err f xs = Inr ys \<Longrightarrow> length ys = length xs"
  by (induction xs arbitrary: ys) (auto split: sum.splits)

lemma map_err_total:
  "(\<And>x. x \<in> set xs \<Longrightarrow> \<exists>y. f x = Inr y) \<Longrightarrow> \<exists>ys. map_err f xs = Inr ys"
proof (induction xs)
  case Nil
  then show ?case by simp
next
  case (Cons x xs)
  then obtain y where "f x = Inr y" by auto
  moreover from Cons obtain ys where "map_err f xs = Inr ys" by auto
  ultimately show ?case by simp
qed

lemma map_err_set:
  "map_err f xs = Inr ys \<Longrightarrow> y \<in> set ys \<Longrightarrow> \<exists>x\<in>set xs. f x = Inr y"
  by (induction xs arbitrary: ys) (auto split: sum.splits)

lemma argmax_from_bound: "bi < i \<Longrightarrow> argmax_from ys i bi bv < i + length ys"
  by (induction ys i bi bv rule: argmax_from.induct) auto

lemma np_argmax_bound: "np_argmax ys = Inr i \<Longrightarrow> i < length ys"
  using argmax_from_bound[of 0 1] by (auto simp: np_argmax_def split: list.splits)

lemma np_argmax_total: "ys \<noteq> [] \<Longrightarrow> \<exists>i. np_argmax ys = Inr i"
  by (cases ys) (simp_all add: np_argmax_def)

lemma length_concat_const:
  "length (concat (map (\<lambda>t. map (g t) vs) ts)) = length ts * length vs"
  by (induction ts) simp_all

lemma length_concat_const_comp:
  "length (concat (map ((\<lambda>t. map (g t) vs) \<circ> h) ts)) = length ts * length vs"
  by (induction ts) simp_all

lemma length_concat_rows:
  "list_all (\<lambda>row. length row = k) rows \<Longrightarrow> length (concat rows) = length rows * k"
  by (induction rows) simp_all

lemma order_spectra_wrong_size:
  "length (self_spectra_flat e) \<noteq> length vpnts \<Longrightarrow> order_spectra E e vpnts None = Inl WrongSize"
  by (simp add: order_spectra_def)

lemma stored_rows_subset:
  assumes "ensemble_init E spectra theta velax re so = Inr e"
  shows "set (self_spectra e) \<subseteq> set spectra"
proof -
  note f = ensemble_init_fields[OF assms]
  have a: "set (sorted_part E so spectra theta) \<subseteq> set spectra"
    using f(10) by (auto simp: sorted_part_def list_all_iff)
  have "set (kept_part re spectra (sorted_part E so spectra theta))
          \<subseteq> set (sorted_part E so spectra theta)"
    by (auto simp: kept_part_def dest: set_zip_leftD)
  with a show ?thesis unfolding f(2) by blast
qed

lemma get_gaussian_center_total:
  assumes "y \<noteq> []" and "length y = length x"
  shows "\<exists>c. get_gaussian_center E x y = Inr c"
proof -
  from np_argmax_total[OF assms(1)] obtain i where i: "np_argmax y = Inr i" by blast
  with np_argmax_bound assms(2) have "i < length x" by fastforce
  with i show ?thesis
    by (auto simp: get_gaussian_center_def bind_err_def nth_err_def split: prod.splits)
qed

lemma peak_velocities_total:
  assumes "list_all (\<lambda>row. length row = length (self_velax e)) (self_spectra e)"
    and "self_velax e \<noteq> []"
    and "str_lower m = ''max'' \<or> str_lower m = ''gaussian''"
  shows "\<exists>vmax. peak_velocities E e m = Inr vmax"
proof -
  have rows: "\<And>row. row \<in> set (self_spectra e) \<Longrightarrow> row \<noteq> [] \<and> length row = length (self_velax e)"
    using assms(1,2) by (auto simp: list_all_iff)
  from assms(3) show ?thesis
  proof
    assume m: "str_lower m = ''max''"
    from rows have "\<exists>idxs. map_err np_argmax (self_spectra e) = Inr idxs"
      by (intro map_err_total np_argmax_total) simp
    then obtain idxs where idxs: "map_err np_argmax (self_spectra e) = Inr idxs" by blast
    have "list_all (\<lambda>i. i < length (self_velax e)) idxs"
      unfolding list_all_iff
    proof
      fix i assume "i \<in> set idxs"
      with map_err_set[OF idxs] obtain row where "row \<in> set (self_spectra e)" "np_argmax row = Inr i"
        by blast
      with rows np_argmax_bound show "i < length (self_velax e)" by fastforce
    qed
    with idxs m show ?thesis
      by (simp add: peak_velocities_def bind_err_def take_idx_def)
  next
    assume m: "str_lower m = ''gaussian''"
    have "\<exists>vmax. map_err (\<lambda>spectrum. get_gaussian_center E (self_velax e) spectrum) (self_spectra e) = Inr vmax"
      using rows by (intro map_err_total get_gaussian_center_total) simp_all
    with m show ?thesis by (simp add: peak_velocities_def)
  qed
qed

lemma peak_velocities_length:
  "peak_velocities E e m = Inr vmax \<Longrightarrow> length vmax = length (self_spectra e)"
  by (auto simp: peak_velocities_def Let_def take_idx_def dest!: bind_err_Inr map_err_length
      split: if_splits)

lemma removed_count:
  assumes "ensemble_init E spectra theta velax True so = Inr e"
    and "list_ex (\<lambda>row. \<not> fl_gt (np_sum row) (Fin 0)) spectra"
  shows "length (self_theta e) < length spectra" and "length (self_spectra e) < length spectra"
proof -
  note f = ensemble_init_fields[OF assms(1)]
  from assms(2) obtain r where r: "r \<in> set spectra" "\<not> fl_gt (np_sum r) (Fin 0)"
    by (auto simp: list_ex_iff)
  have "length (filter (\<lambda>row. fl_gt (np_sum row) (Fin 0)) spectra) < length spectra"
    using r by (rule length_filter_less)
  then show "length (self_theta e) < length spectra" and "length (self_spectra e) < length spectra"
    unfolding f(1) f(2) using f(3) f(4) by (simp_all add: length_kept_part)
qed

lemma init_one_row_removed: "ensemble_init ref_ext [[Fin 0, Fin 0], [Fin 3, Fin 4]] [Fin 1, Fin 2] [Fin 0, Fin 1] True True =
     Inr \<lparr> self_theta = [Fin 2], self_spectra = [[Fin 3, Fin 4]],
           self_theta_deg = map (\<lambda>t. fl_mod (np_degrees t) (Fin 360)) [Fin 1, Fin 2],
           self_spectra_flat = [Fin 0, Fin 0, Fin 3, Fin 4],
           self_velax = [Fin 0, Fin 1],
           self_channel = Fin 1,
           self_velax_range = (Fin (- 1 / 2), Fin (3 / 2)),
           self_velax_mask = (percentile_linear [Fin 0, Fin 1] 30,
                              percentile_linear [Fin 0, Fin 1] 70) \<rparr>"
  by (simp add: ensemble_init_def bind_err_def take_idx_def take_mask_def nth_err_def
      ref_ext_def argsort_stable_def np_sum_def fl_gt_def fl_sub_def Let_def upt_rec)

text \<open>
  C2 (amended). Let the constructor return with \<^verbatim>\<open>remove_empty\<close> enabled on spectra that
  have as many channels as the velocity axis, one row of which has a sum that is not
  greater than zero. Then every call of \<^verbatim>\<open>deprojected_spectrum\<close> raises the size-mismatch
  error of \<^verbatim>\<open>_order_spectra\<close>, and so does every call of \<^verbatim>\<open>deprojected_spectrum_maximum\<close>
  whose method is \<^verbatim>\<open>max\<close> or \<^verbatim>\<open>gaussian\<close> in any letter case, or whose peak velocities
  are returned at all.
\<close>

theorem removed_spectrum_wrong_size:
  assumes "ensemble_init E spectra theta velax True sort_spectra = Inr e"
    and "list_all (\<lambda>row. length row = length velax) spectra"
    and "list_ex (\<lambda>row. \<not> fl_gt (np_sum row) (Fin 0)) spectra"
  shows "deprojected_spectrum E e vrot resample = Inl WrongSize
       \<and> (str_lower m = ''max'' \<or> str_lower m = ''gaussian'' \<longrightarrow>
            deprojected_spectrum_maximum E e resample m = Inl WrongSize)
       \<and> (\<forall>vmax. peak_velocities E e m = Inr vmax \<longrightarrow>
            deprojected_spectrum_maximum E e resample m = Inl WrongSize)"
proof -
  note f = ensemble_init_fields[OF assms(1)]
  note r = removed_count[OF assms(1) assms(3)]
  have k: "0 < length velax" using f(7) by (cases velax) simp_all
  have flat: "length (self_spectra_flat e) = length spectra * length velax"
    unfolding f(5) using assms(2) by (rule length_concat_rows)
  have ne: "\<And>n. n < length spectra \<Longrightarrow> length (self_spectra_flat e) \<noteq> n * length velax"
    using flat k by simp
  have 1: "deprojected_spectrum E e vrot resample = Inl WrongSize"
    using ne[OF r(1)]
    by (simp add: deprojected_spectrum_def Let_def f(6) length_concat_const
        order_spectra_wrong_size bind_err_def)
  have 3: "deprojected_spectrum_maximum E e resample m = Inl WrongSize"
    if "peak_velocities E e m = Inr vmax" for vmax
  proof -
    from peak_velocities_length[OF that] r(2) have "length vmax < length spectra" by simp
    from ne[OF this] that show ?thesis
      by (simp add: deprojected_spectrum_maximum_def Let_def f(6) length_concat_const_comp
          order_spectra_wrong_size bind_err_def)
  qed
  have rows: "list_all (\<lambda>row. length row = length (self_velax e)) (self_spectra e)"
    using stored_rows_subset[OF assms(1)] assms(2) by (auto simp: list_all_iff f(6))
  have 2: "deprojected_spectrum_maximum E e resample m = Inl WrongSize"
    if "str_lower m = ''max'' \<or> str_lower m = ''gaussian''"
    using peak_velocities_total[OF rows _ that, of E] k 3 by (auto simp: f(6))
  from 1 2 3 show ?thesis by blast
qed

theorem removed_spectrum_wrong_size_witness:
  "map_sum id self_theta
     (ensemble_init ref_ext [[Fin 0, Fin 0], [Fin 3, Fin 4]] [Fin 1, Fin 2] [Fin 0, Fin 1] True True)
     = Inr [Fin 2]
   \<and> list_all (\<lambda>row. length row = length [Fin 0, Fin 1]) [[Fin 0, Fin 0], [Fin 3, Fin 4]]
   \<and> list_ex (\<lambda>row. \<not> fl_gt (np_sum row) (Fin 0)) [[Fin 0, Fin 0], [Fin 3, Fin 4]]
   \<and> bind_err
       (ensemble_init ref_ext [[Fin 0, Fin 0], [Fin 3, Fin 4]] [Fin 1, Fin 2] [Fin 0, Fin 1] True True)
       (\<lambda>e. deprojected_spectrum ref_ext e (Fin 1) (PyBool False)) = Inl WrongSize
   \<and> bind_err
       (ensemble_init ref_ext [[Fin 0, Fin 0], [Fin 3, Fin 4]] [Fin 1, Fin 2] [Fin 0, Fin 1] True True)
       (\<lambda>e. deprojected_spectrum_maximum ref_ext e (PyBool False) ''Max'') = Inl WrongSize"
proof -
  have h2: "list_all (\<lambda>row. length row = length [Fin 0, Fin 1]) [[Fin 0, Fin 0], [Fin 3, Fin 4]]"
    by simp
  have h3: "list_ex (\<lambda>row. \<not> fl_gt (np_sum row) (Fin 0)) [[Fin 0, Fin 0], [Fin 3, Fin 4]]"
    by (simp add: np_sum_def fl_gt_def)
  have m: "str_lower ''Max'' = ''max'' \<or> str_lower ''Max'' = ''gaussian''"
    by (simp add: str_lower_def lower_chr_def)
  from removed_spectrum_wrong_size[OF init_one_row_removed h2 h3, of "Fin 1" "PyBool False" "''Max''"] m h2 h3
  show ?thesis by (simp add: init_one_row_removed bind_err_def)
qed

text \<open>
  C2 as stated: on an ensemble that lost a row, \<^verbatim>\<open>deprojected_spectrum_maximum\<close> called
  with a method name that \<^verbatim>\<open>peak_velocities\<close> does not know raises the error of the method
  check, not the size-mismatch error.
\<close>

theorem maximum_bad_method_counterexample:
  "map_sum id self_theta
     (ensemble_init ref_ext [[Fin 0, Fin 0], [Fin 3, Fin 4]] [Fin 1, Fin 2] [Fin 0, Fin 1] True True)
     = Inr [Fin 2]
   \<and> bind_err
       (ensemble_init ref_ext [[Fin 0, Fin 0], [Fin 3, Fin 4]] [Fin 1, Fin 2] [Fin 0, Fin 1] True True)
       (\<lambda>e. deprojected_spectrum_maximum ref_ext e (PyBool False) ''median'') = Inl BadMethod"
  by (simp add: init_one_row_removed bind_err_def deprojected_spectrum_maximum_def
      peak_velocities_def str_lower_def lower_chr_def)

lemma init_two_angles_swapped: "ensemble_init ref_ext [[Fin 1, Fin 2], [Fin 3, Fin 4]] [Fin pi, Fin 0] [Fin 0, Fin 1] True True =
     Inr \<lparr> self_theta = [Fin 0, Fin pi], self_spectra = [[Fin 3, Fin 4], [Fin 1, Fin 2]],
           self_theta_deg = map (\<lambda>t. fl_mod (np_degrees t) (Fin 360)) [Fin pi, Fin 0],
           self_spectra_flat = [Fin 1, Fin 2, Fin 3, Fin 4],
           self_velax = [Fin 0, Fin 1],
           self_channel = Fin 1,
           self_velax_range = (Fin (- 1 / 2), Fin (3 / 2)),
           self_velax_mask = (percentile_linear [Fin 0, Fin 1] 30,
                              percentile_linear [Fin 0, Fin 1] 70) \<rparr>"
  by (simp add: ensemble_init_def bind_err_def take_idx_def take_mask_def nth_err_def
      ref_ext_def argsort_stable_def np_sum_def fl_gt_def fl_sub_def Let_def upt_rec not_le)

text \<open>
  C1. The constructor is given the angles \<open>\<pi>\<close> and \<open>0\<close> with the spectra \<open>(1, 2)\<close> and
  \<open>(3, 4)\<close>, so it stores the angle \<open>0\<close> with \<open>(3, 4)\<close> first. At \<open>vrot = 10\<close> the merged
  cloud pairs the coordinates \<open>-10\<close> and \<open>-9\<close> of the stored angle \<open>0\<close> with the
  intensities \<open>1\<close> and \<open>2\<close> of the other spectrum: the flattened intensities are those
  of the argument of the constructor, not of the stored spectra. The claim asks for the
  pairs of \<open>paired_samples\<close>.
\<close>

theorem merged_cloud_mispaired:
  "bind_err
     (ensemble_init ref_ext [[Fin 1, Fin 2], [Fin 3, Fin 4]] [Fin pi, Fin 0] [Fin 0, Fin 1]
        True True)
     (\<lambda>e. map_sum id (\<lambda>(x, y). zip x y) (deprojected_spectrum ref_ext e (Fin 10) (PyBool False)))
     = Inr [(Fin (- 10), Fin 1), (Fin (- 9), Fin 2), (Fin 10, Fin 3), (Fin 11, Fin 4)]
   \<and> map_sum id (\<lambda>e. paired_samples e (Fin 10))
       (ensemble_init ref_ext [[Fin 1, Fin 2], [Fin 3, Fin 4]] [Fin pi, Fin 0] [Fin 0, Fin 1]
          True True)
     = Inr [(Fin (- 10), Fin 3), (Fin (- 9), Fin 4), (Fin 10, Fin 1), (Fin 11, Fin 2)]"
  unfolding init_two_angles_swapped
  by (simp add: bind_err_def deprojected_spectrum_def order_spectra_def resample_spectra_def
      paired_samples_def take_idx_def ref_ext_def argsort_stable_def fl_sub_def Let_def upt_rec)

section \<open>Properties of the line centres\<close>

lemma init_negative_line:
  "ensemble_init ref_ext [[Fin 0, Fin 1, Fin 0]] [Fin 0] [Fin (- 2), Fin (- 1), Fin 0] True True
     = Inr negative_line_ensemble"
  by (simp add: ensemble_init_def bind_err_def take_idx_def take_mask_def nth_err_def
      ref_ext_def argsort_stable_def np_sum_def fl_gt_def fl_sub_def Let_def upt_rec
      negative_line_ensemble_def percentile_linear_def np_degrees_def)

text \<open>
  C5. A line that peaks at the velocity \<open>-1\<close> is fitted with the centre \<open>-1\<close>, a finite
  value. \<^verbatim>\<open>peak_velocities\<close> with the method \<^verbatim>\<open>gaussian\<close> returns \<open>1\<close>: \<^verbatim>\<open>_get_gaussian_center\<close>
  returns the absolute value of the fitted centre. The method \<^verbatim>\<open>max\<close> returns \<open>-1\<close> on the
  same ensemble.
\<close>

theorem gaussian_center_absolute:
  "ensemble_init ref_ext [[Fin 0, Fin 1, Fin 0]] [Fin 0] [Fin (- 2), Fin (- 1), Fin 0] True True
     = Inr negative_line_ensemble
   \<and> fst (fit_gaussian ref_ext [Fin (- 2), Fin (- 1), Fin 0] [Fin 0, Fin 1, Fin 0]) = Fin (- 1)
   \<and> peak_velocities ref_ext negative_line_ensemble ''gaussian'' = Inr [Fin 1]
   \<and> peak_velocities ref_ext negative_line_ensemble ''max'' = Inr [Fin (- 1)]"
  unfolding init_negative_line
  by (simp add: peak_velocities_def str_lower_def lower_chr_def get_gaussian_center_def
      fit_gaussian_def get_p0_gaussian_def np_max_def np_argmax_def bind_err_def nth_err_def
      take_idx_def ref_ext_def fit_at_guess_def fl_gt_def fl_sub_def negative_line_ensemble_def)

section \<open>Properties of the prior and the posterior\<close>

lemma init_single:
  "ensemble_init ref_ext [[Fin 1, Fin 2, Fin 3]] [Fin 0] [Fin 0, Fin 1, Fin 2] True True
     = Inr single_ensemble"
  by (simp add: ensemble_init_def bind_err_def take_idx_def take_mask_def nth_err_def
      ref_ext_def argsort_stable_def np_sum_def fl_gt_def fl_sub_def Let_def upt_rec
      single_ensemble_def percentile_linear_def np_degrees_def)

lemma init_short:
  "ensemble_init ref_ext [[Fin 0, Fin 0], [Fin 3, Fin 4]] [Fin 1, Fin 2] [Fin 0, Fin 1] True True
     = Inr short_ensemble"
  by (simp add: init_one_row_removed short_ensemble_def)

lemma fl_not_gt_iff_le: "\<not> np_isnan a \<Longrightarrow> \<not> np_isnan b \<Longrightarrow> (\<not> fl_gt a b) = fl_le a b"
  by (cases a; cases b) (auto simp: fl_gt_def)

lemma fl_not_le_iff_gt: "\<not> np_isnan a \<Longrightarrow> \<not> np_isnan b \<Longrightarrow> (\<not> fl_le a b) = fl_gt a b"
  by (cases a; cases b) (auto simp: fl_gt_def)

lemma quotient_not_nan:
  "\<not> np_isnan vrot \<Longrightarrow> 0 < r \<Longrightarrow> \<not> np_isnan (fl_div (fl_abs (fl_sub vrot (Fin r))) (Fin r))"
  by (cases vrot) (auto simp: fl_sub_def)

lemma lnprior_two_values:
  "lnprior [vrot, noise, lnsigma, lnrho] vref = Inr (Fin 0)
   \<or> lnprior [vrot, noise, lnsigma, lnrho] vref = Inr NInf"
  by (simp add: lnprior_def)

text \<open>
  C7 (amended). For every 4-vector the prior is \<open>0.0\<close> or negative infinity and nothing
  else. When the rotation velocity and the noise are not not-a-number and the reference
  velocity is a positive finite number, it is \<open>0.0\<close> exactly when
  \<open>|vrot - vref| / vref \<le> 0.2\<close>, \<open>vrot > 0\<close>, \<open>noise > 0\<close>, \<open>-15 < lnsigma < 10\<close> and
  \<open>0 \<le> lnrho \<le> 10\<close>, and negative infinity otherwise.
\<close>

theorem lnprior_cases:
  "(lnprior [vrot, noise, lnsigma, lnrho] vref = Inr (Fin 0)
      \<or> lnprior [vrot, noise, lnsigma, lnrho] vref = Inr NInf)
   \<and> (\<not> np_isnan vrot \<and> \<not> np_isnan noise \<and> vref = Fin r \<and> 0 < r \<longrightarrow>
        lnprior [vrot, noise, lnsigma, lnrho] vref =
          Inr (if fl_le (fl_div (fl_abs (fl_sub vrot vref)) vref) (Fin 0.2)
                  \<and> fl_gt vrot (Fin 0) \<and> fl_gt noise (Fin 0)
                  \<and> fl_lt (Fin (- 15)) lnsigma \<and> fl_lt lnsigma (Fin 10)
                  \<and> fl_le (Fin 0) lnrho \<and> fl_le lnrho (Fin 10)
               then Fin 0 else NInf))"
proof (intro conjI impI)
  show "lnprior [vrot, noise, lnsigma, lnrho] vref = Inr (Fin 0)
      \<or> lnprior [vrot, noise, lnsigma, lnrho] vref = Inr NInf"
    by (rule lnprior_two_values)
next
  assume a: "\<not> np_isnan vrot \<and> \<not> np_isnan noise \<and> vref = Fin r \<and> 0 < r"
  then have q: "(\<not> fl_gt (fl_div (fl_abs (fl_sub vrot vref)) vref) (Fin 0.2))
                  = fl_le (fl_div (fl_abs (fl_sub vrot vref)) vref) (Fin 0.2)"
    using quotient_not_nan[of vrot r] by (intro fl_not_gt_iff_le) simp_all
  from a have v: "(\<not> fl_le vrot (Fin 0)) = fl_gt vrot (Fin 0)"
    by (intro fl_not_le_iff_gt) simp_all
  from a have n: "(\<not> fl_le noise (Fin 0)) = fl_gt noise (Fin 0)"
    by (intro fl_not_le_iff_gt) simp_all
  show "lnprior [vrot, noise, lnsigma, lnrho] vref =
          Inr (if fl_le (fl_div (fl_abs (fl_sub vrot vref)) vref) (Fin 0.2)
                  \<and> fl_gt vrot (Fin 0) \<and> fl_gt noise (Fin 0)
                  \<and> fl_lt (Fin (- 15)) lnsigma \<and> fl_lt lnsigma (Fin 10)
                  \<and> fl_le (Fin 0) lnrho \<and> fl_le lnrho (Fin 10)
               then Fin 0 else NInf)"
    using q v n unfolding lnprior_def by (simp del: fl_le.simps fl_lt.simps)
qed

theorem lnprior_cases_witness:
  "\<not> np_isnan (Fin 1) \<and> (0::real) < 1
   \<and> lnprior [Fin 1, Fin 1, Fin 0, Fin 5] (Fin 1) = Inr (Fin 0)
   \<and> fl_le (fl_div (fl_abs (fl_sub (Fin 1) (Fin 1))) (Fin 1)) (Fin 0.2)
   \<and> lnprior [Fin 2, Fin 1, Fin 0, Fin 5] (Fin 1) = Inr NInf
   \<and> fl_gt (fl_div (fl_abs (fl_sub (Fin 2) (Fin 1))) (Fin 1)) (Fin 0.2)"
  using lnprior_cases[of "Fin 1" "Fin 1" "Fin 0" "Fin 5" "Fin 1" 1]
    lnprior_cases[of "Fin 2" "Fin 1" "Fin 0" "Fin 5" "Fin 1" 1]
  by (simp add: fl_sub_def fl_gt_def)

text \<open>
  C7 as stated: the tests on the rotation velocity and on the noise are written as
  rejections (\<^verbatim>\<open>> 0.2\<close>, \<^verbatim>\<open><= 0.0\<close>), which are false on not-a-number. A vector whose
  rotation velocity is not-a-number gets the prior \<open>0.0\<close>, although neither \<open>vrot > 0\<close>
  nor \<open>|vrot - vref| / vref \<le> 0.2\<close> holds for it.
\<close>

theorem lnprior_nan_counterexample:
  "lnprior [NaN, Fin 1, Fin 0, Fin 5] (Fin 1) = Inr (Fin 0)
   \<and> fl_gt NaN (Fin 0) = False
   \<and> fl_le (fl_div (fl_abs (fl_sub NaN (Fin 1))) (Fin 1)) (Fin 0.2) = False"
  by (simp add: lnprior_def fl_gt_def fl_sub_def)

lemma lnprior_range: "lnprior theta vref = Inr lp \<Longrightarrow> lp = Fin 0 \<or> lp = NInf"
  by (auto simp: lnprior_def split: list.splits if_splits)

lemma lnlikelihood_range:
  assumes "lnlikelihood E e theta rs = Inr ll"
  shows "np_isfinite ll \<or> ll = NInf"
proof -
  from assms obtain xy where
    r: "(\<lambda>(x, y). bind_err (build_kernel E x y theta) (\<lambda>gp.
       case gp of
         None \<Rightarrow> Inr NInf
       | Some g \<Rightarrow>
           (let ll = gp_log_likelihood E g y in
            Inr (if np_isfinite ll then ll else NInf)))) xy = Inr ll"
    unfolding lnlikelihood_def by (blast dest: bind_err_Inr)
  obtain x y where xy: "xy = (x, y)" by (cases xy)
  from r[unfolded xy] have "bind_err (build_kernel E x y theta) (\<lambda>gp.
       case gp of
         None \<Rightarrow> Inr NInf
       | Some g \<Rightarrow>
           (let ll = gp_log_likelihood E g y in
            Inr (if np_isfinite ll then ll else NInf))) = Inr ll" by simp
  from bind_err_Inr[OF this] show ?thesis
    by (auto simp: Let_def split: option.splits if_splits)
qed

text \<open>
  C10. When the prior is negative infinity, \<^verbatim>\<open>_lnprobability\<close> is negative infinity whatever
  the likelihood would do, for every ensemble and every behaviour of the libraries: the
  result does not depend on the likelihood, which may even raise. When the prior and the
  likelihood return \<open>lp\<close> and \<open>ll\<close>, \<^verbatim>\<open>_lnprobability\<close> returns \<open>lp + ll\<close>.
\<close>

theorem lnprobability_is_sum:
  "(lnprior theta vref = Inr NInf \<longrightarrow> lnprobability E e theta vref rs = Inr NInf)
   \<and> (lnprior theta vref = Inr lp \<and> lnlikelihood E e theta rs = Inr ll \<longrightarrow>
        lnprobability E e theta vref rs = Inr (fl_add lp ll))"
proof (intro conjI impI)
  assume "lnprior theta vref = Inr NInf"
  then show "lnprobability E e theta vref rs = Inr NInf"
    by (simp add: lnprobability_def bind_err_def)
next
  assume a: "lnprior theta vref = Inr lp \<and> lnlikelihood E e theta rs = Inr ll"
  from a lnprior_range have "lp = Fin 0 \<or> lp = NInf" by blast
  moreover from a lnlikelihood_range have "np_isfinite ll \<or> ll = NInf" by blast
  ultimately show "lnprobability E e theta vref rs = Inr (fl_add lp ll)"
    using a by (cases ll) (auto simp: lnprobability_def bind_err_def)
qed

theorem lnprobability_is_sum_witness:
  "lnprior [Fin 1, Fin 1, Fin 10, Fin 5] (Fin 1) = Inr NInf
   \<and> lnlikelihood ref_ext short_ensemble [Fin 1, Fin 1, Fin 10, Fin 5] (PyBool False) = Inl WrongSize
   \<and> lnprobability ref_ext short_ensemble [Fin 1, Fin 1, Fin 10, Fin 5] (Fin 1) (PyBool False)
       = Inr NInf
   \<and> lnprior [Fin 1, Fin 1, Fin 9, Fin 5] (Fin 1) = Inr (Fin 0)
   \<and> lnlikelihood ref_ext single_ensemble [Fin 1, Fin 1, Fin 9, Fin 5] (PyBool False)
       = Inr (Fin (- 3))
   \<and> lnprobability ref_ext single_ensemble [Fin 1, Fin 1, Fin 9, Fin 5] (Fin 1) (PyBool False)
       = Inr (fl_add (Fin 0) (Fin (- 3)))"
proof -
  have p1: "lnprior [Fin 1, Fin 1, Fin 10, Fin 5] (Fin 1) = Inr NInf"
    by (simp add: lnprior_def fl_gt_def fl_sub_def)
  have p2: "lnprior [Fin 1, Fin 1, Fin 9, Fin 5] (Fin 1) = Inr (Fin 0)"
    by (simp add: lnprior_def fl_gt_def fl_sub_def)
  have l1: "lnlikelihood ref_ext short_ensemble [Fin 1, Fin 1, Fin 10, Fin 5] (PyBool False)
              = Inl WrongSize"
    by (simp add: lnlikelihood_def get_masked_spectra_def deprojected_spectrum_def
        order_spectra_def bind_err_def nth_err_def short_ensemble_def Let_def)
  have l2: "lnlikelihood ref_ext single_ensemble [Fin 1, Fin 1, Fin 9, Fin 5] (PyBool False)
              = Inr (Fin (- 3))"
    by (simp add: lnlikelihood_def get_masked_spectra_def deprojected_spectrum_def
        order_spectra_def resample_spectra_def build_kernel_def bind_err_def take_idx_def
        take_mask_def nth_err_def ref_ext_def argsort_stable_def fl_sub_def fl_ge_def Let_def
        upt_rec single_ensemble_def gp_keep_lnsigma_def ll_peak_at_12_def)
  from lnprobability_is_sum[where theta="[Fin 1, Fin 1, Fin 10, Fin 5]" and vref="Fin 1"
      and E=ref_ext and e=short_ensemble and rs="PyBool False"] p1
  have a: "lnprobability ref_ext short_ensemble [Fin 1, Fin 1, Fin 10, Fin 5] (Fin 1) (PyBool False)
       = Inr NInf" by blast
  from lnprobability_is_sum[where theta="[Fin 1, Fin 1, Fin 9, Fin 5]" and vref="Fin 1"
      and lp="Fin 0" and E=ref_ext and e=single_ensemble and rs="PyBool False"
      and ll="Fin (- 3)"] p2 l2
  have b: "lnprobability ref_ext single_ensemble [Fin 1, Fin 1, Fin 9, Fin 5] (Fin 1) (PyBool False)
       = Inr (fl_add (Fin 0) (Fin (- 3)))" by blast
  from p1 l1 a p2 l2 b show ?thesis by blast
qed

section \<open>Properties of the sampling driver\<close>




section \<open>Properties of the resampling\<close>





section \<open>Properties of the staged optimizer\<close>

lemma nll_at_12:
  "negative_lnlikelihood ref_ext single_ensemble [Fin 1, Fin 1, Fin 12, Fin 5] (PyBool False)
     = Inr (Fin 0)"
  by (simp add: negative_lnlikelihood_def lnlikelihood_def get_masked_spectra_def
      deprojected_spectrum_def order_spectra_def resample_spectra_def build_kernel_def
      bind_err_def take_idx_def take_mask_def nth_err_def ref_ext_def argsort_stable_def
      fl_sub_def fl_ge_def Let_def upt_rec single_ensemble_def gp_keep_lnsigma_def
      ll_peak_at_12_def)

lemma nll_at_10:
  "negative_lnlikelihood ref_ext single_ensemble [Fin 1, Fin 1, Fin 10, Fin 5] (PyBool False)
     = Inr (Fin 2)"
  by (simp add: negative_lnlikelihood_def lnlikelihood_def get_masked_spectra_def
      deprojected_spectrum_def order_spectra_def resample_spectra_def build_kernel_def
      bind_err_def take_idx_def take_mask_def nth_err_def ref_ext_def argsort_stable_def
      fl_sub_def fl_ge_def Let_def upt_rec single_ensemble_def gp_keep_lnsigma_def
      ll_peak_at_12_def)

lemma min_ref: "minimize ref_ext f x0 b = minimize_projected f x0 b"
  by (simp add: ref_ext_def)

text \<open>
  C3. The optimizer starts from \<open>(1, 1, 12, 5)\<close>, whose negative log-likelihood is \<open>0\<close>,
  and runs one pass. The first minimization converges at \<open>lnsigma = 10\<close>, the bound, where
  the negative log-likelihood is \<open>2\<close>; the step is rejected, and so are the other two. The
  vector returned is \<open>(1, 1, 10, 5)\<close> all the same: \<^verbatim>\<open>p0_temp = p0\<close> names the array of
  \<^verbatim>\<open>p0\<close>, so \<^verbatim>\<open>p0_temp[1:] = res.x\<close> has overwritten it before the comparison. The
  returned vector is not the one held before the rejected step, and its negative
  log-likelihood is greater than that of the input.
\<close>

theorem optimizer_keeps_rejected_step:
  "negative_lnlikelihood ref_ext single_ensemble [Fin 1, Fin 1, Fin 12, Fin 5] (PyBool False)
     = Inr (Fin 0)
   \<and> map_sum id (\<lambda>(s, p). cells s p)
       (optimize_p0 ref_ext single_ensemble (store_of [Fin 1, Fin 1, Fin 12, Fin 5]) 0
          (PyBool True) (PyBool False))
     = Inr [Fin 1, Fin 1, Fin 10, Fin 5]
   \<and> negative_lnlikelihood ref_ext single_ensemble [Fin 1, Fin 1, Fin 10, Fin 5] (PyBool False)
     = Inr (Fin 2)"
  by (simp add: nll_at_12 nll_at_10 min_ref optimize_p0_def optimize_iter_def stage_hyper_def
      stage_vrot_def stage_joint_def minimize_projected_def assign_tail_def assign_head_def
      write_cell_def new_cell_def store_of_def bind_err_def nth_err_def fl_gt_def Let_def
      numeral_eq_Suc)

end
